theory Spec2Isabelle
  imports Main "HOL-Library.Word" "HOL-Library.AList"
begin

section \<open>The Sentry hook of logrus-hooks (sentry/hook.go)\<close>

text \<open>
  The hook turns a logrus entry into a raven packet and hands it to a raven client.
  The theory embeds \<^verbatim>\<open>hook.go\<close>: the severity table, the constructors,
  \<^verbatim>\<open>findStacktrace\<close>, \<^verbatim>\<open>convertStackTrace\<close>, \<^verbatim>\<open>formatExtraData\<close>,
  \<^verbatim>\<open>formatData\<close> and \<^verbatim>\<open>Fire\<close>. Calls into logrus, raven, pkg/errors and the Go
  runtime are parameters of the model (the record \<open>env\<close>); the type \<^verbatim>\<open>dataField\<close> of
  the package, declared outside \<^verbatim>\<open>hook.go\<close>, is a parameter as well.

  Go pointers, interfaces, maps and the slice \<^verbatim>\<open>errors.StackTrace\<close> can be nil where
  the source tests for it: such a value is an \<open>option\<close>, with \<open>None\<close> for nil. A
  run-time panic is a value of the type \<open>panic\<close>, and a function that can panic returns
  \<open>panic + 'a\<close>.
\<close>

subsection \<open>Levels and severities\<close>

text \<open>
  \<^verbatim>\<open>logrus.Level\<close> is a \<^verbatim>\<open>uint32\<close>; logrus numbers its levels from the most severe,
  \<^verbatim>\<open>PanicLevel = iota\<close>, downwards. \<^verbatim>\<open>raven.Severity\<close> is a string type.
\<close>

type_synonym Level = "32 word"

definition PanicLevel :: Level where "PanicLevel = 0"
definition FatalLevel :: Level where "FatalLevel = 1"
definition ErrorLevel :: Level where "ErrorLevel = 2"
definition WarnLevel :: Level where "WarnLevel = 3"
definition InfoLevel :: Level where "InfoLevel = 4"
definition DebugLevel :: Level where "DebugLevel = 5"

type_synonym Severity = string

definition DEBUG :: Severity where "DEBUG = ''debug''"
definition INFO :: Severity where "INFO = ''info''"
definition WARNING :: Severity where "WARNING = ''warning''"
definition ERROR :: Severity where "ERROR = ''error''"
definition FATAL :: Severity where "FATAL = ''fatal''"

text \<open>The table \<^verbatim>\<open>severityMap\<close>, a Go map literal, in the order of the source.\<close>

definition severityMap :: "(Level \<times> Severity) list" where
  "severityMap =
     [(DebugLevel, DEBUG),
      (InfoLevel, INFO),
      (WarnLevel, WARNING),
      (ErrorLevel, ERROR),
      (FatalLevel, FATAL),
      (PanicLevel, FATAL)]"

text \<open>
  Indexing a Go map, \<^verbatim>\<open>m[k]\<close>: the value stored under the key, and the zero value of
  the value type when the key is absent (also when the map is nil).
\<close>

definition index_or :: "'v \<Rightarrow> ('k \<times> 'v) list \<Rightarrow> 'k \<Rightarrow> 'v" where
  "index_or zero m k = (case map_of m k of None \<Rightarrow> zero | Some v \<Rightarrow> v)"

subsection \<open>Stack traces and errors\<close>

text \<open>
  \<^verbatim>\<open>uintptr\<close> on a 64-bit platform. An \<^verbatim>\<open>errors.Frame\<close> is a \<^verbatim>\<open>uintptr\<close>, and an
  \<^verbatim>\<open>errors.StackTrace\<close> is a slice of frames, nil or not.
\<close>

type_synonym uintptr = "64 word"

text \<open>
  \<^verbatim>\<open>raven.StacktraceFrame\<close> and \<^verbatim>\<open>raven.Stacktrace\<close>: the fields of the frame that the
  frame constructor fills from its arguments.
\<close>

record StacktraceFrame =
  AbsolutePath :: string
  Lineno :: int
  Module :: string
  Function :: string
  InApp :: bool

record Stacktrace =
  Frames :: "StacktraceFrame list"

text \<open>
  A Go error value. \<^verbatim>\<open>hook.go\<close> looks at an error through \<^verbatim>\<open>Error()\<close> and through three
  interfaces, each of which the dynamic type of the value implements or not:
  \<^verbatim>\<open>Stacktracer\<close> (\<^verbatim>\<open>GetStacktrace() *raven.Stacktrace\<close>), \<^verbatim>\<open>pkgErrorStackTracer\<close>
  (\<^verbatim>\<open>StackTrace() errors.StackTrace\<close>) and \<^verbatim>\<open>causer\<close> (\<^verbatim>\<open>Cause() error\<close>). The outer
  \<open>option\<close> of a field is \<open>None\<close> when the type assertion fails; the inner one is \<open>None\<close>
  when the method returns nil. Error chains are finite: the model has no error that is
  its own cause.
\<close>

datatype error = Error
  (Error_text: string)
  (dynamic_type: string)
  (GetStacktrace: "Stacktrace option option")
  (StackTrace: "uintptr list option option")
  (Cause: "error option option")

datatype panic = NilDereference | IndexOutOfRange

subsection \<open>findStacktrace\<close>

text \<open>
  The loop of \<^verbatim>\<open>findStacktrace\<close>, with its two variables \<^verbatim>\<open>stacktrace\<close> and
  \<^verbatim>\<open>stackErr\<close> as accumulators and \<^verbatim>\<open>err\<close> as the loop variable:
  \<^verbatim>\<open>
  for err != nil {
      if tracer, ok := err.(Stacktracer); ok {
          stacktrace = tracer.GetStacktrace(); stackErr = nil
      } else if tracer, ok := err.(pkgErrorStackTracer); ok {
          stacktrace = nil; stackErr = tracer.StackTrace()
      }
      if cause, ok := err.(causer); ok { err = cause.Cause() } else { break }
  }\<close>
\<close>

definition visit :: "error \<Rightarrow> Stacktrace option \<times> uintptr list option
    \<Rightarrow> Stacktrace option \<times> uintptr list option" where
  "visit err slots =
     (case GetStacktrace err of
        Some st \<Rightarrow> (st, None)
      | None \<Rightarrow>
          (case StackTrace err of
             Some se \<Rightarrow> (None, se)
           | None \<Rightarrow> slots))"

function findStacktrace_loop :: "Stacktrace option \<times> uintptr list option \<Rightarrow> error option
    \<Rightarrow> Stacktrace option \<times> uintptr list option" where
  "findStacktrace_loop slots None = slots"
| "findStacktrace_loop slots (Some err) =
     (case Cause err of
        Some cause \<Rightarrow> findStacktrace_loop (visit err slots) cause
      | None \<Rightarrow> visit err slots)"
  by pat_completeness auto

termination findStacktrace_loop
proof (relation "measure (\<lambda>(slots, err). size_option size err)")
  show "wf (measure (\<lambda>(slots, err). size_option size err))"
    by simp
next
  fix slots :: "Stacktrace option \<times> uintptr list option" and err cause
  assume "Cause err = Some cause"
  then show "((visit err slots, cause), (slots, Some err))
      \<in> measure (\<lambda>(slots, err). size_option size err)"
    by (cases err) simp
qed

subsection \<open>The hook, the entry and the packet\<close>

text \<open>
  A value of type \<^verbatim>\<open>interface{}\<close>, as a field of an entry or of a packet's extra data.
  \<^verbatim>\<open>formatData\<close> switches on three interfaces of its dynamic type: \<^verbatim>\<open>json.Marshaler\<close>,
  \<^verbatim>\<open>error\<close> and \<^verbatim>\<open>fmt.Stringer\<close>; a value can implement several of them. A Go string
  implements none.
\<close>

datatype underlying = Str string | Num int | Opaque nat

datatype any = Dyn
  (is_Marshaler: bool)
  (as_error: "error option")
  (as_Stringer: "string option")
  (underlying: underlying)

definition string_value :: "string \<Rightarrow> any" where
  "string_value s = Dyn False None None (Str s)"

text \<open>Opaque library values: a raven client, an HTTP and a user descriptor, a runtime function.\<close>

datatype Client = Client nat
datatype Http = Http nat
datatype User = User nat
datatype Func = Func nat

record Exception =
  exc_Value :: string
  exc_Type :: string
  exc_Module :: string
  exc_Stacktrace :: "Stacktrace option"

text \<open>The members of \<^verbatim>\<open>packet.Interfaces\<close> that the hook appends; a stack trace is a pointer.\<close>

datatype Interface =
  Http_interface Http
| User_interface User
| Stacktrace_interface "Stacktrace option"
| Exception_interface Exception

text \<open>
  \<^verbatim>\<open>raven.Packet\<close>, the fields the hook writes. \<^verbatim>\<open>Extra\<close> is a Go map and can be nil; a
  map is an association list with distinct keys, in the order a \<^verbatim>\<open>range\<close> visits it.
\<close>

record Packet =
  Message :: string
  Timestamp :: int
  Level :: Severity
  Platform :: string
  ServerName :: string
  Logger :: string
  EventID :: string
  Tags :: "(string \<times> string) list"
  Fingerprint :: "string list"
  Culprit :: string
  Interfaces :: "Interface list"
  Extra :: "(string \<times> any) list option"

text \<open>\<^verbatim>\<open>logrus.Entry\<close>: the level, the message, the time and the fields.\<close>

record Entry =
  entry_Level :: Level
  entry_Message :: string
  entry_Time :: int
  entry_Data :: "(string \<times> any) list"

text \<open>
  \<^verbatim>\<open>dataField\<close> is declared in another file of the package. The model takes what its
  methods answer during one call of \<^verbatim>\<open>Fire\<close> as given: each getter returns a value
  and a flag (\<open>None\<close> when the flag is false), \<^verbatim>\<open>isOmit\<close> is asked once per key by
  \<^verbatim>\<open>formatExtraData\<close>, and \<open>data\<close> is the field \<^verbatim>\<open>df.data\<close> that it ranges over.
\<close>

record dataField =
  data :: "(string \<times> any) list"
  getLogger :: "string option"
  getServerName :: "string option"
  getEventID :: "string option"
  getTags :: "(string \<times> string) list option"
  getFingerprint :: "string list option"
  getHTTPRequest :: "Http option"
  getUser :: "User option"
  getError :: "error option"
  isOmit :: "string \<Rightarrow> bool"

text \<open>
  \<^verbatim>\<open>StackTraceConfiguration\<close> and \<^verbatim>\<open>Hook\<close>. A \<^verbatim>\<open>time.Duration\<close> is a count of
  nanoseconds. The lock \<^verbatim>\<open>mu\<close> and the wait group \<^verbatim>\<open>wg\<close> are not fields of the model. A
  nil slice of prefixes is the empty list. The two maps can be nil.
\<close>

record StackTraceConfiguration =
  Enable :: bool
  stacktrace_Level :: Level
  Skip :: int
  Context :: int
  InAppPrefixes :: "string list"
  SendExceptionType :: bool
  SwitchExceptionTypeAndMessage :: bool

record Hook =
  Timeout :: int
  StacktraceConfiguration :: StackTraceConfiguration
  client :: "Client option"
  levels :: "Level list"
  serverName :: string
  ignoreFields :: "(string \<times> unit) list option"
  extraFilters :: "(string \<times> (any \<Rightarrow> any)) list option"
  asynchronous :: bool

text \<open>
  The library calls of \<^verbatim>\<open>hook.go\<close>: \<^verbatim>\<open>raven.NewPacket\<close>, \<^verbatim>\<open>newDataField\<close>,
  \<^verbatim>\<open>raven.NewStacktrace\<close> (which reads the call stack and can return nil),
  \<^verbatim>\<open>errors.Cause\<close>, \<^verbatim>\<open>raven.NewException\<close>, \<^verbatim>\<open>(*raven.Stacktrace).Culprit\<close>,
  \<^verbatim>\<open>runtime.FuncForPC\<close> (nil when no function contains the program counter),
  \<^verbatim>\<open>(*runtime.Func).FileLine\<close>, \<^verbatim>\<open>raven.NewStacktraceFrame\<close> (which can return nil),
  \<^verbatim>\<open>raven.New\<close>, \<^verbatim>\<open>raven.NewWithTags\<close> and \<^verbatim>\<open>time.Duration.String\<close>.
  \<^verbatim>\<open>Culprit\<close> and \<^verbatim>\<open>FileLine\<close> read through their receiver: they are functions of a
  receiver that is not nil, and a call with a nil receiver is a panic of the caller.
\<close>

record env =
  NewPacket :: "string \<Rightarrow> Packet"
  newDataField :: "(string \<times> any) list \<Rightarrow> dataField"
  NewStacktrace :: "int \<Rightarrow> int \<Rightarrow> string list \<Rightarrow> Stacktrace option"
  errors_Cause :: "error \<Rightarrow> error option"
  NewException :: "error \<Rightarrow> Stacktrace option \<Rightarrow> Exception"
  Stacktrace_Culprit :: "Stacktrace \<Rightarrow> string"
  FuncForPC :: "uintptr \<Rightarrow> Func option"
  FileLine :: "Func \<Rightarrow> uintptr \<Rightarrow> string \<times> int"
  NewStacktraceFrame ::
    "uintptr \<Rightarrow> string \<Rightarrow> int \<Rightarrow> int \<Rightarrow> string list \<Rightarrow> StacktraceFrame option"
  raven_New :: "string \<Rightarrow> Client option \<times> error option"
  raven_NewWithTags :: "string \<Rightarrow> (string \<times> string) list \<Rightarrow> Client option \<times> error option"
  Duration_String :: "int \<Rightarrow> string"

subsection \<open>convertStackTrace\<close>

text \<open>
  The body of the first loop of \<^verbatim>\<open>convertStackTrace\<close> for one raw frame:
  \<^verbatim>\<open>
  pc := uintptr(stFrames[i])
  fn := runtime.FuncForPC(pc)
  file, line := fn.FileLine(pc)
  frame := raven.NewStacktraceFrame(pc, file, line, stConfig.Context, stConfig.InAppPrefixes)\<close>
  The source does not test \<^verbatim>\<open>fn\<close>: with the nil that \<^verbatim>\<open>FuncForPC\<close> returns for a
  program counter outside every function, \<^verbatim>\<open>fn.FileLine\<close> dereferences nil.
\<close>

definition newFrame :: "env \<Rightarrow> Hook \<Rightarrow> uintptr \<Rightarrow> panic + StacktraceFrame option" where
  "newFrame e hook pc =
     (case FuncForPC e pc of
        None \<Rightarrow> Inl NilDereference
      | Some fn \<Rightarrow>
          (case FileLine e fn pc of
             (file, line) \<Rightarrow>
               Inr (NewStacktraceFrame e pc file line
                      (Context (StacktraceConfiguration hook))
                      (InAppPrefixes (StacktraceConfiguration hook)))))"

text \<open>
  The first loop: \<^verbatim>\<open>for i := range stFrames\<close>, appending each frame that is not nil to
  \<^verbatim>\<open>frames\<close>.
\<close>

fun convert_loop :: "env \<Rightarrow> Hook \<Rightarrow> uintptr list \<Rightarrow> StacktraceFrame list
    \<Rightarrow> panic + StacktraceFrame list" where
  "convert_loop e hook [] frames = Inr frames"
| "convert_loop e hook (pc # stFrames) frames =
     (case newFrame e hook pc of
        Inl p \<Rightarrow> Inl p
      | Inr None \<Rightarrow> convert_loop e hook stFrames frames
      | Inr (Some frame) \<Rightarrow> convert_loop e hook stFrames (frames @ [frame]))"

text \<open>
  The second loop reverses \<^verbatim>\<open>frames\<close> in place:
  \<^verbatim>\<open>for i, j := 0, len(frames)-1; i < j; i, j = i+1, j-1 {
      frames[i], frames[j] = frames[j], frames[i] }\<close>
  \<^verbatim>\<open>i\<close> and \<^verbatim>\<open>j\<close> are Go ints (\<^verbatim>\<open>j\<close> starts at \<open>-1\<close> on an empty slice); an index
  outside the slice is a panic.
\<close>

function reverse_loop :: "'a list \<Rightarrow> int \<Rightarrow> int \<Rightarrow> panic + 'a list" where
  "reverse_loop frames i j =
     (if i < j then
        (if 0 \<le> i \<and> i < int (length frames) \<and> 0 \<le> j \<and> j < int (length frames)
         then reverse_loop (frames[nat i := frames ! nat j, nat j := frames ! nat i])
                (i + 1) (j - 1)
         else Inl IndexOutOfRange)
      else Inr frames)"
  by pat_completeness auto

termination reverse_loop
  by (relation "measure (\<lambda>(frames, i, j). nat (j - i))") auto

declare reverse_loop.simps [simp del]

definition convertStackTrace :: "env \<Rightarrow> Hook \<Rightarrow> uintptr list \<Rightarrow> panic + Stacktrace" where
  "convertStackTrace e hook st =
     (case convert_loop e hook st [] of
        Inl p \<Rightarrow> Inl p
      | Inr frames \<Rightarrow>
          (case reverse_loop frames 0 (int (length frames) - 1) of
             Inl p \<Rightarrow> Inl p
           | Inr frames' \<Rightarrow> Inr \<lparr>Frames = frames'\<rparr>))"

text \<open>
  \<^verbatim>\<open>findStacktrace\<close>: the loop from both slots empty, then the conversion when
  \<^verbatim>\<open>stackErr != nil\<close>. The result is a pointer, nil when no trace was found.
\<close>

definition findStacktrace :: "env \<Rightarrow> Hook \<Rightarrow> error option \<Rightarrow> panic + Stacktrace option" where
  "findStacktrace e hook err =
     (case findStacktrace_loop (None, None) err of
        (stacktrace, Some stackErr) \<Rightarrow>
          (case convertStackTrace e hook stackErr of
             Inl p \<Rightarrow> Inl p
           | Inr st \<Rightarrow> Inr (Some st))
      | (stacktrace, None) \<Rightarrow> Inr stacktrace)"

subsection \<open>The constructors\<close>

definition Millisecond :: int where
  "Millisecond = 1000 * 1000"

definition NewWithClientHook :: "Client option \<Rightarrow> Level list \<Rightarrow> Hook option \<times> error option" where
  "NewWithClientHook cl lvls =
     (Some \<lparr>Timeout = 100 * Millisecond,
            StacktraceConfiguration =
              \<lparr>Enable = False,
               stacktrace_Level = ErrorLevel,
               Skip = 5,
               Context = 0,
               InAppPrefixes = [],
               SendExceptionType = True,
               SwitchExceptionTypeAndMessage = False\<rparr>,
            client = cl,
            levels = lvls,
            serverName = [],
            ignoreFields = Some [],
            extraFilters = Some [],
            asynchronous = False\<rparr>,
      None)"

definition NewHook :: "env \<Rightarrow> string \<Rightarrow> Level list \<Rightarrow> Hook option \<times> error option" where
  "NewHook e DSN lvls =
     (case raven_New e DSN of
        (cl, Some err) \<Rightarrow> (None, Some err)
      | (cl, None) \<Rightarrow> NewWithClientHook cl lvls)"

definition NewWithTagsHook :: "env \<Rightarrow> string \<Rightarrow> (string \<times> string) list \<Rightarrow> Level list
    \<Rightarrow> Hook option \<times> error option" where
  "NewWithTagsHook e DSN tags lvls =
     (case raven_NewWithTags e DSN tags of
        (cl, Some err) \<Rightarrow> (None, Some err)
      | (cl, None) \<Rightarrow> NewWithClientHook cl lvls)"

definition setAsync :: "Hook option \<Rightarrow> Hook option" where
  "setAsync hook =
     (case hook of
        None \<Rightarrow> None
      | Some h \<Rightarrow> Some (h\<lparr>asynchronous := True\<rparr>))"

definition NewAsyncHook :: "env \<Rightarrow> string \<Rightarrow> Level list \<Rightarrow> Hook option \<times> error option" where
  "NewAsyncHook e DSN lvls =
     (case NewHook e DSN lvls of (hook, err) \<Rightarrow> (setAsync hook, err))"

definition NewAsyncWithTagsHook :: "env \<Rightarrow> string \<Rightarrow> (string \<times> string) list \<Rightarrow> Level list
    \<Rightarrow> Hook option \<times> error option" where
  "NewAsyncWithTagsHook e DSN tags lvls =
     (case NewWithTagsHook e DSN tags lvls of (hook, err) \<Rightarrow> (setAsync hook, err))"

definition NewAsyncWithClientHook :: "Client option \<Rightarrow> Level list
    \<Rightarrow> Hook option \<times> error option" where
  "NewAsyncWithClientHook cl lvls =
     (case NewWithClientHook cl lvls of (hook, err) \<Rightarrow> (setAsync hook, err))"

subsection \<open>formatData and formatExtraData\<close>

text \<open>The type switch of \<^verbatim>\<open>formatData\<close>, its cases in the order of the source.\<close>

definition formatData :: "any \<Rightarrow> any" where
  "formatData v =
     (if is_Marshaler v then v
      else case as_error v of
             Some err \<Rightarrow> string_value (Error_text err)
           | None \<Rightarrow>
               (case as_Stringer v of
                  Some s \<Rightarrow> string_value s
                | None \<Rightarrow> v))"

text \<open>The two-valued index \<^verbatim>\<open>v, ok := m[k]\<close> on a map that can be nil.\<close>

definition lookup :: "('k \<times> 'v) list option \<Rightarrow> 'k \<Rightarrow> 'v option" where
  "lookup m k = (case m of None \<Rightarrow> None | Some al \<Rightarrow> map_of al k)"

text \<open>
  The loop of \<^verbatim>\<open>formatExtraData\<close> over \<^verbatim>\<open>df.data\<close>; \<open>result\<close> is the map under
  construction, and \<^verbatim>\<open>result[k] = v\<close> is \<open>AList.update\<close>.
\<close>

fun formatExtraData_loop :: "Hook \<Rightarrow> dataField \<Rightarrow> (string \<times> any) list \<Rightarrow> (string \<times> any) list
    \<Rightarrow> (string \<times> any) list" where
  "formatExtraData_loop hook df [] result = result"
| "formatExtraData_loop hook df ((k, v) # rest) result =
     (if isOmit df k then formatExtraData_loop hook df rest result
      else if lookup (ignoreFields hook) k \<noteq> None then formatExtraData_loop hook df rest result
      else formatExtraData_loop hook df rest
             (AList.update k
                (case lookup (extraFilters hook) k of
                   Some fn \<Rightarrow> fn v
                 | None \<Rightarrow> formatData v)
                result))"

definition formatExtraData :: "Hook \<Rightarrow> dataField \<Rightarrow> (string \<times> any) list" where
  "formatExtraData hook df = formatExtraData_loop hook df (data df) []"

subsection \<open>Fire\<close>

text \<open>
  The start of \<^verbatim>\<open>Fire\<close>: the new packet with its timestamp, level and platform. The
  level is \<^verbatim>\<open>severityMap[entry.Level]\<close>; the zero value of \<^verbatim>\<open>raven.Severity\<close> is the
  empty string.
\<close>

definition new_packet :: "env \<Rightarrow> Entry \<Rightarrow> Packet" where
  "new_packet e entry =
     (NewPacket e (entry_Message entry))
       \<lparr>Timestamp := entry_Time entry,
        Level := index_or [] severityMap (entry_Level entry),
        Platform := ''go''\<rparr>"

text \<open>The part under the comment \<^verbatim>\<open>// set special fields\<close>, statement by statement.\<close>

definition set_special_fields :: "Hook \<Rightarrow> dataField \<Rightarrow> Packet \<Rightarrow> Packet" where
  "set_special_fields hook df packet0 =
     (let packet1 = (if serverName hook \<noteq> [] then packet0\<lparr>ServerName := serverName hook\<rparr>
                     else packet0);
          packet2 = (case getLogger df of
                       Some logger \<Rightarrow> packet1\<lparr>Logger := logger\<rparr> | None \<Rightarrow> packet1);
          packet3 = (case getServerName df of
                       Some name \<Rightarrow> packet2\<lparr>ServerName := name\<rparr> | None \<Rightarrow> packet2);
          packet4 = (case getEventID df of
                       Some eventID \<Rightarrow> packet3\<lparr>EventID := eventID\<rparr> | None \<Rightarrow> packet3);
          packet5 = (case getTags df of
                       Some tags \<Rightarrow> packet4\<lparr>Tags := tags\<rparr> | None \<Rightarrow> packet4);
          packet6 = (case getFingerprint df of
                       Some fingerprint \<Rightarrow> packet5\<lparr>Fingerprint := fingerprint\<rparr>
                     | None \<Rightarrow> packet5);
          packet7 = (case getHTTPRequest df of
                       Some req \<Rightarrow> packet6\<lparr>Interfaces := Interfaces packet6 @ [Http_interface req]\<rparr>
                     | None \<Rightarrow> packet6)
      in case getUser df of
           Some user \<Rightarrow> packet7\<lparr>Interfaces := Interfaces packet7 @ [User_interface user]\<rparr>
         | None \<Rightarrow> packet7)"

text \<open>
  The part under \<^verbatim>\<open>// set stacktrace data\<close>. \<open>current_stacktrace\<close> is the variable
  \<^verbatim>\<open>currentStacktrace\<close> of the branch with an error: what \<^verbatim>\<open>findStacktrace\<close> found, and
  a new trace of the call site when it found none. \<open>exception\<close> is \<^verbatim>\<open>exc\<close> after the
  test of \<^verbatim>\<open>SendExceptionType\<close>.
\<close>

definition stacktrace_wanted :: "Hook \<Rightarrow> Entry \<Rightarrow> bool" where
  "stacktrace_wanted hook entry =
     (Enable (StacktraceConfiguration hook)
      \<and> entry_Level entry \<le> stacktrace_Level (StacktraceConfiguration hook))"

definition new_stacktrace :: "env \<Rightarrow> Hook \<Rightarrow> Stacktrace option" where
  "new_stacktrace e hook =
     NewStacktrace e (Skip (StacktraceConfiguration hook))
       (Context (StacktraceConfiguration hook))
       (InAppPrefixes (StacktraceConfiguration hook))"

definition current_stacktrace :: "env \<Rightarrow> Hook \<Rightarrow> error \<Rightarrow> panic + Stacktrace option" where
  "current_stacktrace e hook err =
     (case findStacktrace e hook (Some err) of
        Inl p \<Rightarrow> Inl p
      | Inr None \<Rightarrow> Inr (new_stacktrace e hook)
      | Inr (Some st) \<Rightarrow> Inr (Some st))"

definition exception :: "env \<Rightarrow> Hook \<Rightarrow> error \<Rightarrow> Stacktrace option \<Rightarrow> Exception" where
  "exception e hook err currentStacktrace =
     (let cause = (case errors_Cause e err of None \<Rightarrow> err | Some c \<Rightarrow> c);
          exc = NewException e cause currentStacktrace
      in if \<not> SendExceptionType (StacktraceConfiguration hook) then exc\<lparr>exc_Type := []\<rparr>
         else exc)"

definition set_stacktrace_data :: "env \<Rightarrow> Hook \<Rightarrow> Entry \<Rightarrow> dataField \<Rightarrow> Packet
    \<Rightarrow> panic + Packet" where
  "set_stacktrace_data e hook entry df packet =
     (if stacktrace_wanted hook entry then
        (case getError df of
           Some err \<Rightarrow>
             (case current_stacktrace e hook err of
                Inl p \<Rightarrow> Inl p
              | Inr currentStacktrace \<Rightarrow>
                  (let exc = exception e hook err currentStacktrace
                   in if SwitchExceptionTypeAndMessage (StacktraceConfiguration hook) then
                        (case currentStacktrace of
                           None \<Rightarrow> Inl NilDereference
                         | Some st \<Rightarrow>
                             Inr (packet
                               \<lparr>Culprit := exc_Type exc @ '': '' @ Stacktrace_Culprit e st,
                                Interfaces := Interfaces packet
                                  @ [Stacktrace_interface currentStacktrace]\<rparr>))
                      else
                        Inr (packet
                          \<lparr>Culprit := Error_text err,
                           Interfaces := Interfaces packet @ [Exception_interface exc]\<rparr>)))
         | None \<Rightarrow>
             (case new_stacktrace e hook of
                Some st \<Rightarrow>
                  Inr (packet\<lparr>Interfaces := Interfaces packet
                                @ [Stacktrace_interface (Some st)]\<rparr>)
              | None \<Rightarrow> Inr packet))
      else
        (case getError df of
           Some err \<Rightarrow> Inr (packet\<lparr>Culprit := Error_text err\<rparr>)
         | None \<Rightarrow> Inr packet))"

text \<open>
  The part under \<^verbatim>\<open>// set other fields\<close>: the loop
  \<^verbatim>\<open>for k, v := range dataExtra { packet.Extra[k] = v }\<close> when \<^verbatim>\<open>packet.Extra\<close> is not nil.
\<close>

fun merge_loop :: "(string \<times> any) list \<Rightarrow> (string \<times> any) list \<Rightarrow> (string \<times> any) list" where
  "merge_loop [] extra = extra"
| "merge_loop ((k, v) # rest) extra = merge_loop rest (AList.update k v extra)"

definition set_other_fields :: "Hook \<Rightarrow> dataField \<Rightarrow> Packet \<Rightarrow> Packet" where
  "set_other_fields hook df packet =
     (let dataExtra = formatExtraData hook df
      in case Extra packet of
           None \<Rightarrow> packet\<lparr>Extra := Some dataExtra\<rparr>
         | Some extra \<Rightarrow> packet\<lparr>Extra := Some (merge_loop dataExtra extra)\<rparr>)"

text \<open>The packet that \<^verbatim>\<open>Fire\<close> hands to \<^verbatim>\<open>hook.client.Capture\<close>.\<close>

definition build_packet :: "env \<Rightarrow> Hook \<Rightarrow> Entry \<Rightarrow> panic + Packet" where
  "build_packet e hook entry =
     (let df = newDataField e (entry_Data entry)
      in case set_stacktrace_data e hook entry df
                (set_special_fields hook df (new_packet e entry)) of
           Inl p \<Rightarrow> Inl p
         | Inr packet \<Rightarrow> Inr (set_other_fields hook df packet))"

text \<open>
  The end of \<^verbatim>\<open>Fire\<close>, after \<^verbatim>\<open>Capture\<close> has returned the channel \<^verbatim>\<open>errCh\<close>. In the last
  branch the \<^verbatim>\<open>select\<close> statement runs one of its two cases, the one whose channel is
  ready first: \<open>from_errCh err\<close> when \<^verbatim>\<open>errCh\<close> delivers \<open>err\<close> (nil for a delivery
  without error), \<open>from_timeoutCh\<close> when the timer of \<^verbatim>\<open>time.After(timeout)\<close> fires. Which
  one is ready first is an input of the model. \<^verbatim>\<open>fmt.Errorf\<close> formats the duration with
  its \<^verbatim>\<open>String\<close> method. \<open>registered\<close> says whether \<^verbatim>\<open>Fire\<close> called \<^verbatim>\<open>hook.wg.Add(1)\<close>
  and started the goroutine that waits for \<^verbatim>\<open>errCh\<close>.
\<close>

datatype select_case = from_errCh "error option" | from_timeoutCh

definition Errorf_no_response :: "env \<Rightarrow> int \<Rightarrow> error" where
  "Errorf_no_response e timeout =
     Error (''no response from sentry server in '' @ Duration_String e timeout)
       ''*errors.errorString'' None None None"

record Fired =
  captured :: Packet
  returned :: "error option"
  registered :: bool

definition Fire :: "env \<Rightarrow> Hook \<Rightarrow> Entry \<Rightarrow> select_case \<Rightarrow> panic + Fired" where
  "Fire e hook entry ready =
     (case build_packet e hook entry of
        Inl p \<Rightarrow> Inl p
      | Inr packet \<Rightarrow>
          (if asynchronous hook then
             Inr \<lparr>captured = packet, returned = None, registered = True\<rparr>
           else if Timeout hook = 0 then
             Inr \<lparr>captured = packet, returned = None, registered = False\<rparr>
           else
             (case ready of
                from_errCh err \<Rightarrow>
                  Inr \<lparr>captured = packet, returned = err, registered = False\<rparr>
              | from_timeoutCh \<Rightarrow>
                  Inr \<lparr>captured = packet,
                       returned = Some (Errorf_no_response e (Timeout hook)),
                       registered = False\<rparr>)))"

subsection \<open>Notions used to state the properties\<close>

text \<open>
  The links of an error chain in the order in which the loop of \<^verbatim>\<open>findStacktrace\<close> visits
  them: the error itself, then the cause of each link that is a \<^verbatim>\<open>causer\<close>, up to the
  first link that is not one or whose cause is nil. The first link is the outermost
  error, the last one the innermost.
\<close>

function chain :: "error option \<Rightarrow> error list" where
  "chain None = []"
| "chain (Some err) =
     err # (case Cause err of Some cause \<Rightarrow> chain cause | None \<Rightarrow> [])"
  by pat_completeness auto

termination chain
proof (relation "measure (size_option size)")
  show "wf (measure (size_option (size :: error \<Rightarrow> nat)))"
    by simp
next
  fix err cause
  assume "Cause err = Some cause"
  then show "(cause, Some err) \<in> measure (size_option size)"
    by (cases err) simp
qed

text \<open>
  A link exposes no stack trace when its type is neither a \<^verbatim>\<open>Stacktracer\<close> nor a
  \<^verbatim>\<open>pkgErrorStackTracer\<close>.
\<close>

definition exposes_no_trace :: "error \<Rightarrow> bool" where
  "exposes_no_trace err = (GetStacktrace err = None \<and> StackTrace err = None)"

text \<open>
  The frames that \<^verbatim>\<open>raven.NewStacktraceFrame\<close> builds for the raw frames of a trace, in
  the order of the raw frames; a raw frame is dropped when the constructor returns nil
  for it.
\<close>

definition dropped :: "env \<Rightarrow> Hook \<Rightarrow> uintptr \<Rightarrow> bool" where
  "dropped e hook pc = (newFrame e hook pc = Inr None)"

definition retained_frames :: "env \<Rightarrow> Hook \<Rightarrow> uintptr list \<Rightarrow> StacktraceFrame list" where
  "retained_frames e hook st =
     List.map_filter (\<lambda>pc. case newFrame e hook pc of Inr frame \<Rightarrow> frame | Inl p \<Rightarrow> None) st"

text \<open>The configuration that the constructors give a hook.\<close>

definition default_configuration :: "Hook \<Rightarrow> bool" where
  "default_configuration h =
     (Timeout h = 100000000
      \<and> \<not> Enable (StacktraceConfiguration h)
      \<and> stacktrace_Level (StacktraceConfiguration h) = ErrorLevel
      \<and> Skip (StacktraceConfiguration h) = 5
      \<and> Context (StacktraceConfiguration h) = 0
      \<and> InAppPrefixes (StacktraceConfiguration h) = []
      \<and> SendExceptionType (StacktraceConfiguration h)
      \<and> ignoreFields h = Some []
      \<and> extraFilters h = Some [])"

subsection \<open>A sample environment and sample inputs\<close>

text \<open>
  Concrete library behaviour to run the model on: \<^verbatim>\<open>errors.Cause\<close> follows the causes to
  the last link, \<^verbatim>\<open>raven.NewPacket\<close> seeds the extra data with a runtime key,
  \<^verbatim>\<open>raven.NewException\<close> takes the value and the type from the error,
  \<^verbatim>\<open>Culprit\<close> names the last in-app frame, the functions of the program lie at the
  program counters from \<open>4198400\<close> (0x401000) up to \<open>5242880\<close> (0x500000), the line of a
  program counter is its offset from the first of them, and the frame constructor
  returns nil for the program counter \<open>4198499\<close> (as for the frame of
  \<^verbatim>\<open>runtime.goexit\<close>). The data field view finds an error under the key \<^verbatim>\<open>error\<close> and
  omits that key.
\<close>

function sample_Cause :: "error option \<Rightarrow> error option" where
  "sample_Cause None = None"
| "sample_Cause (Some err) =
     (case Cause err of Some cause \<Rightarrow> sample_Cause cause | None \<Rightarrow> Some err)"
  by pat_completeness auto

termination sample_Cause
proof (relation "measure (size_option size)")
  show "wf (measure (size_option (size :: error \<Rightarrow> nat)))"
    by simp
next
  fix err cause
  assume "Cause err = Some cause"
  then show "(cause, Some err) \<in> measure (size_option size)"
    by (cases err) simp
qed

definition sample_packet :: "string \<Rightarrow> Packet" where
  "sample_packet msg =
     \<lparr>Message = msg, Timestamp = 0, Level = [], Platform = [], ServerName = [],
      Logger = [], EventID = [], Tags = [], Fingerprint = [], Culprit = [],
      Interfaces = [],
      Extra = Some [(''runtime.NumCPU'', Dyn False None None (Num 8))]\<rparr>"

definition sample_dataField :: "(string \<times> any) list \<Rightarrow> dataField" where
  "sample_dataField entryData =
     \<lparr>data = entryData,
      getLogger = None, getServerName = None, getEventID = None, getTags = None,
      getFingerprint = None, getHTTPRequest = None, getUser = None,
      getError = (case map_of entryData ''error'' of None \<Rightarrow> None | Some v \<Rightarrow> as_error v),
      isOmit = (\<lambda>k. k = ''error'')\<rparr>"

definition sample_Culprit :: "Stacktrace \<Rightarrow> string" where
  "sample_Culprit st =
     (case filter (\<lambda>f. InApp f \<and> Module f \<noteq> [] \<and> Function f \<noteq> []) (rev (Frames st)) of
        [] \<Rightarrow> []
      | f # fs \<Rightarrow> Module f @ ''.'' @ Function f)"

definition sample_env :: env where
  "sample_env =
     \<lparr>NewPacket = sample_packet,
      newDataField = sample_dataField,
      NewStacktrace = (\<lambda>skip context prefixes.
        if 5 < skip then None
        else Some \<lparr>Frames = [\<lparr>AbsolutePath = ''/app/main.go'', Lineno = 42,
                                Module = ''main'', Function = ''run'', InApp = True\<rparr>]\<rparr>),
      errors_Cause = (\<lambda>err. sample_Cause (Some err)),
      NewException = (\<lambda>err st.
        \<lparr>exc_Value = Error_text err, exc_Type = dynamic_type err, exc_Module = [],
         exc_Stacktrace = st\<rparr>),
      Stacktrace_Culprit = sample_Culprit,
      FuncForPC = (\<lambda>pc. if 4198400 \<le> pc \<and> pc < 5242880 then Some (Func 1) else None),
      FileLine = (\<lambda>fn pc. (''/app/main.go'', int (unat pc) - 4198400)),
      NewStacktraceFrame = (\<lambda>pc file line context prefixes.
        if pc = 4198499 then None
        else Some \<lparr>AbsolutePath = file, Lineno = line, Module = ''main'',
                   Function = ''run'', InApp = True\<rparr>),
      raven_New = (\<lambda>DSN.
        if DSN = [] then (None, Some (Error ''raven: dsn missing'' ''*errors.errorString''
                                        None None None))
        else (Some (Client 1), None)),
      raven_NewWithTags = (\<lambda>DSN tags.
        if DSN = [] then (None, Some (Error ''raven: dsn missing'' ''*errors.errorString''
                                        None None None))
        else (Some (Client 2), None)),
      Duration_String = (\<lambda>d. if d = 100000000 then ''100ms'' else ''50ms'')\<rparr>"

definition sample_hook :: Hook where
  "sample_hook =
     \<lparr>Timeout = 100 * Millisecond,
      StacktraceConfiguration =
        \<lparr>Enable = False, stacktrace_Level = ErrorLevel, Skip = 5, Context = 0,
         InAppPrefixes = [], SendExceptionType = True,
         SwitchExceptionTypeAndMessage = False\<rparr>,
      client = Some (Client 1),
      levels = [PanicLevel, FatalLevel, ErrorLevel],
      serverName = [],
      ignoreFields = Some [],
      extraFilters = Some [],
      asynchronous = False\<rparr>"

definition tracing_hook :: "bool \<Rightarrow> Hook" where
  "tracing_hook switch =
     sample_hook\<lparr>StacktraceConfiguration :=
       (StacktraceConfiguration sample_hook)
         \<lparr>Enable := True, SwitchExceptionTypeAndMessage := switch\<rparr>\<rparr>"

definition sample_frame :: StacktraceFrame where
  "sample_frame =
     \<lparr>AbsolutePath = ''/app/db.go'', Lineno = 7, Module = ''db'', Function = ''query'',
      InApp = True\<rparr>"

definition foreign_error :: error where
  "foreign_error = Error ''connection refused'' ''*errors.fundamental'' None
     (Some (Some [4198410, 4198499, 4198430])) None"

definition wrapping_error :: error where
  "wrapping_error = Error ''query failed: connection refused'' ''*errors.withMessage''
     None None (Some (Some foreign_error))"

definition direct_error :: error where
  "direct_error = Error ''request failed'' ''*app.tracedError''
     (Some (Some \<lparr>Frames = [sample_frame]\<rparr>)) None (Some (Some foreign_error))"

definition plain_error :: error where
  "plain_error = Error ''boom'' ''MyError'' None None None"

definition error_entry :: "error \<Rightarrow> Entry" where
  "error_entry err =
     \<lparr>entry_Level = ErrorLevel, entry_Message = ''request failed'', entry_Time = 1,
      entry_Data = [(''error'', Dyn False (Some err) None (Opaque 0)),
                    (''runtime.NumCPU'', string_value ''many'')]\<rparr>"

definition nil_trace_error :: error where
  "nil_trace_error = Error ''deadline exceeded'' ''*app.timeoutError'' None (Some None) None"

definition wrapping_nil_error :: error where
  "wrapping_nil_error = Error ''query failed: deadline exceeded'' ''*errors.withMessage''
     None None (Some (Some nil_trace_error))"

definition direct_over_nil_error :: error where
  "direct_over_nil_error = Error ''request failed'' ''*app.tracedError''
     (Some (Some \<lparr>Frames = [sample_frame]\<rparr>)) None (Some (Some nil_trace_error))"

definition plain_entry :: Entry where
  "plain_entry =
     \<lparr>entry_Level = ErrorLevel, entry_Message = ''disk almost full'', entry_Time = 2,
      entry_Data = [(''volume'', string_value ''/var'')]\<rparr>"

definition shallow_stack_hook :: Hook where
  "shallow_stack_hook =
     sample_hook\<lparr>StacktraceConfiguration :=
       (StacktraceConfiguration sample_hook)
         \<lparr>Enable := True, Skip := 100, SwitchExceptionTypeAndMessage := True\<rparr>\<rparr>"

section \<open>Properties\<close>

subsection \<open>The reversal loop\<close>

text \<open>
  The loop swaps the ends of the segment between \<open>i\<close> and \<open>j\<close> and moves inwards: it
  stays inside the slice and returns the slice with that segment mirrored.
\<close>

lemma reverse_loop_nth:
  "0 \<le> i \<Longrightarrow> j < int (length xs) \<Longrightarrow>
   \<exists>ys. reverse_loop xs i j = Inr ys \<and> length ys = length xs \<and>
     (\<forall>k<length xs. ys ! k = (if i \<le> int k \<and> int k \<le> j then xs ! nat (i + j - int k) else xs ! k))"
proof (induction xs i j rule: reverse_loop.induct)
  case (1 frames i j)
  show ?case
  proof (cases "i < j")
    case False
    then have "reverse_loop frames i j = Inr frames" by (subst reverse_loop.simps) simp
    moreover have "\<forall>k<length frames. frames ! k =
        (if i \<le> int k \<and> int k \<le> j then frames ! nat (i + j - int k) else frames ! k)"
    proof (intro allI impI)
      fix k assume "k < length frames"
      show "frames ! k = (if i \<le> int k \<and> int k \<le> j then frames ! nat (i + j - int k) else frames ! k)"
      proof (cases "i \<le> int k \<and> int k \<le> j")
        case inside: True
        with False have "i = int k" "j = int k" by auto
        then have "nat (i + j - int k) = k" by simp
        with inside show ?thesis by simp
      next
        case outside: False
        then show ?thesis by auto
      qed
    qed
    ultimately show ?thesis by simp
  next
    case True
    let ?xs' = "frames[nat i := frames ! nat j, nat j := frames ! nat i]"
    from True "1.prems" have inr: "0 \<le> i \<and> i < int (length frames) \<and> 0 \<le> j \<and> j < int (length frames)"
      by auto
    have step: "reverse_loop frames i j = reverse_loop ?xs' (i + 1) (j - 1)"
      using True inr by (subst reverse_loop.simps) simp
    have "\<exists>ys. reverse_loop ?xs' (i + 1) (j - 1) = Inr ys \<and> length ys = length ?xs' \<and>
     (\<forall>k<length ?xs'. ys ! k = (if i + 1 \<le> int k \<and> int k \<le> j - 1 then ?xs' ! nat (i + 1 + (j - 1) - int k) else ?xs' ! k))"
      using "1.IH"[OF True inr] inr by simp
    then obtain ys where ys: "reverse_loop ?xs' (i + 1) (j - 1) = Inr ys" "length ys = length frames"
      and nth: "\<And>k. k < length frames \<Longrightarrow> ys ! k = (if i + 1 \<le> int k \<and> int k \<le> j - 1 then ?xs' ! nat (i + 1 + (j - 1) - int k) else ?xs' ! k)"
      by auto
    have "\<forall>k<length frames. ys ! k = (if i \<le> int k \<and> int k \<le> j then frames ! nat (i + j - int k) else frames ! k)"
    proof (intro allI impI)
      fix k assume k: "k < length frames"
      consider "int k = i" | "int k = j" | "i < int k \<and> int k < j" | "int k < i \<or> j < int k"
        by linarith
      then show "ys ! k = (if i \<le> int k \<and> int k \<le> j then frames ! nat (i + j - int k) else frames ! k)"
      proof cases
        case 1
        then have "k = nat i" by simp
        with nth[OF k] True inr 1 show ?thesis by (simp add: nth_list_update)
      next
        case 2
        then have "k = nat j" by simp
        with nth[OF k] True inr 2 show ?thesis by (simp add: nth_list_update)
      next
        case 3
        then have "nat (i + j - int k) \<noteq> nat i" "nat (i + j - int k) \<noteq> nat j" using inr by linarith+
        with nth[OF k] 3 inr show ?thesis by (simp add: nth_list_update)
      next
        case 4
        with True have "int k \<noteq> i" "int k \<noteq> j" by linarith+
        then have "k \<noteq> nat i" "k \<noteq> nat j" using inr by auto
        with nth[OF k] 4 inr show ?thesis by (auto simp add: nth_list_update)
      qed
    qed
    with ys step show ?thesis by simp
  qed
qed

lemma reverse_loop_rev: "reverse_loop xs 0 (int (length xs) - 1) = Inr (rev xs)"
proof -
  obtain ys where ys: "reverse_loop xs 0 (int (length xs) - 1) = Inr ys" "length ys = length xs"
    and nth: "\<And>k. k < length xs \<Longrightarrow> ys ! k = (if 0 \<le> int k \<and> int k \<le> int (length xs) - 1 then xs ! nat (0 + (int (length xs) - 1) - int k) else xs ! k)"
    using reverse_loop_nth[of 0 "int (length xs) - 1" xs] by auto
  have "ys = rev xs"
  proof (rule nth_equalityI)
    show "length ys = length (rev xs)" using ys by simp
  next
    fix k assume "k < length ys"
    then have k: "k < length xs" using ys by simp
    then have "nat (0 + (int (length xs) - 1) - int k) = length xs - Suc k" by linarith
    with nth[OF k] k show "ys ! k = rev xs ! k" by (simp add: rev_nth)
  qed
  with ys show ?thesis by simp
qed


subsection \<open>The conversion of a raw trace\<close>

lemma newFrame_resolved:
  "FuncForPC e pc \<noteq> None \<Longrightarrow> \<exists>frame. newFrame e hook pc = Inr frame"
  by (auto simp: newFrame_def split: option.splits prod.splits)

lemma newFrame_unresolved:
  "FuncForPC e pc = None \<Longrightarrow> newFrame e hook pc = Inl NilDereference"
  by (simp add: newFrame_def)

lemma newFrame_panic:
  "newFrame e hook pc = Inl p \<Longrightarrow> p = NilDereference \<and> FuncForPC e pc = None"
  by (auto simp: newFrame_def split: option.splits prod.splits)

lemma retained_frames_Nil: "retained_frames e hook [] = []"
  by (simp add: retained_frames_def)

lemma retained_frames_Cons:
  "retained_frames e hook (pc # st) =
     (case newFrame e hook pc of
        Inr (Some frame) \<Rightarrow> frame # retained_frames e hook st
      | Inr None \<Rightarrow> retained_frames e hook st
      | Inl p \<Rightarrow> retained_frames e hook st)"
  by (simp add: retained_frames_def split: sum.splits option.splits)

lemma convert_loop_resolved:
  "\<forall>pc\<in>set st. FuncForPC e pc \<noteq> None \<Longrightarrow>
   convert_loop e hook st frames = Inr (frames @ retained_frames e hook st)"
proof (induction st arbitrary: frames)
  case Nil
  then show ?case by (simp add: retained_frames_Nil)
next
  case (Cons pc st)
  then obtain frame where frame: "newFrame e hook pc = Inr frame"
    using newFrame_resolved[of e pc hook] by auto
  from Cons have rest: "\<forall>pc\<in>set st. FuncForPC e pc \<noteq> None" by simp
  show ?case
  proof (cases frame)
    case None
    with frame Cons.IH[OF rest] show ?thesis by (simp add: retained_frames_Cons)
  next
    case (Some f)
    with frame Cons.IH[OF rest] show ?thesis by (simp add: retained_frames_Cons)
  qed
qed

lemma convert_loop_unresolved:
  "pc \<in> set st \<Longrightarrow> FuncForPC e pc = None \<Longrightarrow>
   convert_loop e hook st frames = Inl NilDereference"
proof (induction st arbitrary: frames)
  case Nil
  then show ?case by simp
next
  case (Cons a st)
  show ?case
  proof (cases "newFrame e hook a")
    case (Inl p)
    then show ?thesis using newFrame_panic[OF Inl] by simp
  next
    case (Inr frame)
    then have "FuncForPC e a \<noteq> None" by (auto simp: newFrame_def split: option.splits)
    with Cons.prems have "pc \<in> set st" by auto
    from Cons.IH[OF this Cons.prems(2)] Inr show ?thesis by (cases frame) simp_all
  qed
qed

lemma convertStackTrace_resolved:
  "\<forall>pc\<in>set st. FuncForPC e pc \<noteq> None \<Longrightarrow>
   convertStackTrace e hook st = Inr \<lparr>Frames = rev (retained_frames e hook st)\<rparr>"
  by (simp add: convertStackTrace_def convert_loop_resolved reverse_loop_rev)

lemma convertStackTrace_unresolved:
  "pc \<in> set st \<Longrightarrow> FuncForPC e pc = None \<Longrightarrow>
   convertStackTrace e hook st = Inl NilDereference"
  by (simp add: convertStackTrace_def convert_loop_unresolved)

text \<open>The conversion panics only on a raw frame that lies in no function.\<close>

lemma convert_loop_panics:
  assumes "convert_loop e hook st frames = Inl p"
  shows "p = NilDereference \<and> (\<exists>pc\<in>set st. FuncForPC e pc = None)"
proof -
  have "\<exists>pc\<in>set st. FuncForPC e pc = None"
  proof (rule ccontr)
    assume "\<not> (\<exists>pc\<in>set st. FuncForPC e pc = None)"
    then have "\<forall>pc\<in>set st. FuncForPC e pc \<noteq> None" by simp
    from convert_loop_resolved[OF this, of hook frames] assms show False by simp
  qed
  then obtain pc where pc: "pc \<in> set st" "FuncForPC e pc = None" by blast
  from convert_loop_unresolved[OF pc, of hook frames] assms have "p = NilDereference"
    by simp
  with pc show ?thesis by blast
qed

lemma convertStackTrace_panics:
  "convertStackTrace e hook st = Inl p \<Longrightarrow>
   p = NilDereference \<and> (\<exists>pc\<in>set st. FuncForPC e pc = None)"
  by (auto simp: convertStackTrace_def reverse_loop_rev split: sum.splits
      dest: convert_loop_panics)

lemma length_retained_frames:
  "\<forall>pc\<in>set st. FuncForPC e pc \<noteq> None \<Longrightarrow>
   length (retained_frames e hook st) = length st - length (filter (dropped e hook) st)"
proof (induction st)
  case Nil
  then show ?case by (simp add: retained_frames_Nil)
next
  case (Cons pc st)
  then obtain frame where frame: "newFrame e hook pc = Inr frame"
    using newFrame_resolved[of e pc hook] by auto
  have le: "length (filter (dropped e hook) st) \<le> length st" by simp
  from Cons have "length (retained_frames e hook st) = length st - length (filter (dropped e hook) st)"
    by simp
  moreover have "dropped e hook pc \<longleftrightarrow> frame = None"
    using frame by (simp add: dropped_def)
  ultimately show ?case
    using frame le by (cases frame) (simp_all add: retained_frames_Cons Suc_diff_le)
qed

subsection \<open>The walk along the error chain\<close>

text \<open>
  The loop folds \<open>visit\<close> over the links of the chain, so the last link that exposes a
  trace decides both slots.
\<close>

lemma visit_no_trace: "exposes_no_trace err \<Longrightarrow> visit err slots = slots"
  by (simp add: visit_def exposes_no_trace_def)

lemma visit_direct: "GetStacktrace err = Some st \<Longrightarrow> visit err slots = (st, None)"
  by (simp add: visit_def)

lemma visit_foreign:
  "GetStacktrace err = None \<Longrightarrow> StackTrace err = Some se \<Longrightarrow> visit err slots = (None, se)"
  by (simp add: visit_def)

lemma findStacktrace_loop_chain:
  "findStacktrace_loop slots err = foldl (\<lambda>s x. visit x s) slots (chain err)"
proof (induction slots err rule: findStacktrace_loop.induct)
  case (1 slots)
  then show ?case by simp
next
  case (2 slots err)
  then show ?case by (cases "Cause err") simp_all
qed

lemma foldl_visit_no_trace:
  "\<forall>x\<in>set links. exposes_no_trace x \<Longrightarrow> foldl (\<lambda>s x. visit x s) slots links = slots"
  by (induction links arbitrary: slots) (simp_all add: visit_no_trace)

lemma loop_last_direct:
  assumes "chain err = before @ x # after" and "GetStacktrace x = Some st"
    and "\<forall>y\<in>set after. exposes_no_trace y"
  shows "findStacktrace_loop slots err = (st, None)"
  using assms by (simp add: findStacktrace_loop_chain visit_direct foldl_visit_no_trace)

lemma loop_last_foreign:
  assumes "chain err = before @ x # after" and "GetStacktrace x = None"
    and "StackTrace x = Some se" and "\<forall>y\<in>set after. exposes_no_trace y"
  shows "findStacktrace_loop slots err = (None, se)"
  using assms by (simp add: findStacktrace_loop_chain visit_foreign foldl_visit_no_trace)

lemma findStacktrace_panics:
  "findStacktrace e hook err = Inl p \<Longrightarrow>
   p = NilDereference
   \<and> (\<exists>raw. snd (findStacktrace_loop (None, None) err) = Some raw
        \<and> (\<exists>pc\<in>set raw. FuncForPC e pc = None))"
  by (auto simp: findStacktrace_def split: prod.splits option.splits sum.splits
      dest: convertStackTrace_panics)

text \<open>
  What the resolver returns when the last link of the chain that is a \<^verbatim>\<open>Stacktracer\<close> or a
  \<^verbatim>\<open>pkgErrorStackTracer\<close> is known, and the conversion on the sample trace.
\<close>

lemma findStacktrace_last_direct:
  assumes "chain err = before @ x # after" and "GetStacktrace x = Some st"
    and "\<forall>y\<in>set after. exposes_no_trace y"
  shows "findStacktrace e hook err = Inr st"
  using loop_last_direct[OF assms, of "(None, None)"] by (simp add: findStacktrace_def)

lemma findStacktrace_last_nil_foreign:
  assumes "chain err = before @ x # after" and "GetStacktrace x = None"
    and "StackTrace x = Some None" and "\<forall>y\<in>set after. exposes_no_trace y"
  shows "findStacktrace e hook err = Inr None"
  using loop_last_foreign[OF assms, of "(None, None)"] by (simp add: findStacktrace_def)

lemma findStacktrace_last_foreign:
  assumes "chain err = before @ x # after" and "GetStacktrace x = None"
    and "StackTrace x = Some (Some raw)" and "\<forall>y\<in>set after. exposes_no_trace y"
    and "\<forall>pc\<in>set raw. FuncForPC e pc \<noteq> None"
  shows "findStacktrace e hook err = Inr (Some \<lparr>Frames = rev (retained_frames e hook raw)\<rparr>)"
  using loop_last_foreign[OF assms(1-4), of "(None, None)"]
  by (simp add: findStacktrace_def convertStackTrace_resolved[OF assms(5)])

lemma sample_resolved:
  "\<forall>pc\<in>set [4198410, 4198499, 4198430]. FuncForPC sample_env pc \<noteq> None"
  by (simp add: sample_env_def)

lemma sample_retained:
  "retained_frames sample_env hook [4198410, 4198499, 4198430] =
      [\<lparr>AbsolutePath = ''/app/main.go'', Lineno = 10, Module = ''main'',
         Function = ''run'', InApp = True\<rparr>,
       \<lparr>AbsolutePath = ''/app/main.go'', Lineno = 30, Module = ''main'',
         Function = ''run'', InApp = True\<rparr>]"
  by (simp add: retained_frames_def newFrame_def sample_env_def)

lemma sample_dropped:
  "filter (dropped sample_env hook) [4198410, 4198499, 4198430] = [4198499]"
  by (simp add: dropped_def newFrame_def sample_env_def)


subsection \<open>The stack-trace resolver\<close>

text \<open>
  Claim C2 says that the resolver returns the direct-format trace of the outermost error
  unchanged and ignores a foreign-format trace of a wrapped error. The code does the
  opposite: every link that exposes a trace overwrites both slots, so the innermost
  exposing link wins (the comment in the loop: "Find the earliest *raven.Stacktrace, or
  error.StackTrace"). On the chain \<open>direct_error\<close>, whose only cause \<open>foreign_error\<close>
  carries three raw frames, the resolver returns the conversion of the raw frames and
  not the direct trace.
\<close>

theorem findStacktrace_outer_direct_counterexample:
  "GetStacktrace direct_error = Some (Some \<lparr>Frames = [sample_frame]\<rparr>)
   \<and> Cause direct_error = Some (Some foreign_error)
   \<and> StackTrace foreign_error = Some (Some [4198410, 4198499, 4198430])
   \<and> findStacktrace sample_env sample_hook (Some direct_error)
       = Inr (Some \<lparr>Frames =
           [\<lparr>AbsolutePath = ''/app/main.go'', Lineno = 30, Module = ''main'',
              Function = ''run'', InApp = True\<rparr>,
            \<lparr>AbsolutePath = ''/app/main.go'', Lineno = 10, Module = ''main'',
              Function = ''run'', InApp = True\<rparr>]\<rparr>)
   \<and> findStacktrace sample_env sample_hook (Some direct_error)
       \<noteq> Inr (Some \<lparr>Frames = [sample_frame]\<rparr>)"
proof -
  have chain: "chain (Some direct_error) = [direct_error] @ foreign_error # []"
    by (simp add: direct_error_def foreign_error_def)
  have found: "findStacktrace sample_env sample_hook (Some direct_error)
       = Inr (Some \<lparr>Frames =
           [\<lparr>AbsolutePath = ''/app/main.go'', Lineno = 30, Module = ''main'',
              Function = ''run'', InApp = True\<rparr>,
            \<lparr>AbsolutePath = ''/app/main.go'', Lineno = 10, Module = ''main'',
              Function = ''run'', InApp = True\<rparr>]\<rparr>)"
    using findStacktrace_last_foreign[OF chain _ _ _ sample_resolved, of sample_hook]
    by (simp add: foreign_error_def sample_retained)
  show ?thesis
    unfolding found by (simp add: direct_error_def foreign_error_def sample_frame_def)
qed

text \<open>
  Claim C2 as amended. For every error chain whose outermost error exposes a
  direct-format trace, the innermost link that is a \<^verbatim>\<open>Stacktracer\<close> or a
  \<^verbatim>\<open>pkgErrorStackTracer\<close> decides what the resolver returns. When no wrapped error is
  one of the two, the resolver returns the outermost direct-format trace unchanged.
  Otherwise it ignores that trace, and with \<open>x\<close> the innermost wrapped error that is one
  of the two: when \<open>x\<close> is a \<^verbatim>\<open>Stacktracer\<close>, it returns the direct-format trace of
  \<open>x\<close>; when \<open>x\<close> is a \<^verbatim>\<open>pkgErrorStackTracer\<close> only and its foreign-format trace is nil,
  it returns no trace; when \<open>x\<close> is a \<^verbatim>\<open>pkgErrorStackTracer\<close> only and its foreign-format
  trace is not nil, each raw frame lying in a function known to the runtime, it returns
  the conversion of that trace: the frames built for the raw frames, less those for
  which the frame constructor returns nil, in reverse order.
\<close>

theorem findStacktrace_outer_direct:
  assumes "GetStacktrace outer = Some direct"
    and "chain (Some outer) = outer # inner"
  shows "((\<forall>x\<in>set inner. exposes_no_trace x) \<longrightarrow>
            findStacktrace e hook (Some outer) = Inr direct)
       \<and> (\<forall>before x after inner_direct.
            inner = before @ x # after \<and> (\<forall>y\<in>set after. exposes_no_trace y)
              \<and> GetStacktrace x = Some inner_direct
            \<longrightarrow> findStacktrace e hook (Some outer) = Inr inner_direct)
       \<and> (\<forall>before x after.
            inner = before @ x # after \<and> (\<forall>y\<in>set after. exposes_no_trace y)
              \<and> GetStacktrace x = None \<and> StackTrace x = Some None
            \<longrightarrow> findStacktrace e hook (Some outer) = Inr None)
       \<and> (\<forall>before x after foreign.
            inner = before @ x # after \<and> (\<forall>y\<in>set after. exposes_no_trace y)
              \<and> GetStacktrace x = None \<and> StackTrace x = Some (Some foreign)
              \<and> (\<forall>pc\<in>set foreign. FuncForPC e pc \<noteq> None)
            \<longrightarrow> findStacktrace e hook (Some outer)
                  = Inr (Some \<lparr>Frames = rev (retained_frames e hook foreign)\<rparr>))"
proof (intro conjI allI impI)
  assume "\<forall>x\<in>set inner. exposes_no_trace x"
  with assms show "findStacktrace e hook (Some outer) = Inr direct"
    using findStacktrace_last_direct[of "Some outer" "[]" outer inner direct] by simp
next
  fix before x after inner_direct
  assume h: "inner = before @ x # after \<and> (\<forall>y\<in>set after. exposes_no_trace y)
      \<and> GetStacktrace x = Some inner_direct"
  with assms have "chain (Some outer) = (outer # before) @ x # after" by simp
  with h show "findStacktrace e hook (Some outer) = Inr inner_direct"
    using findStacktrace_last_direct[of "Some outer" "outer # before" x after inner_direct]
    by blast
next
  fix before x after
  assume h: "inner = before @ x # after \<and> (\<forall>y\<in>set after. exposes_no_trace y)
      \<and> GetStacktrace x = None \<and> StackTrace x = Some None"
  with assms have "chain (Some outer) = (outer # before) @ x # after" by simp
  with h show "findStacktrace e hook (Some outer) = Inr None"
    using findStacktrace_last_nil_foreign[of "Some outer" "outer # before" x after]
    by blast
next
  fix before x after foreign
  assume h: "inner = before @ x # after \<and> (\<forall>y\<in>set after. exposes_no_trace y)
      \<and> GetStacktrace x = None \<and> StackTrace x = Some (Some foreign)
      \<and> (\<forall>pc\<in>set foreign. FuncForPC e pc \<noteq> None)"
  with assms have "chain (Some outer) = (outer # before) @ x # after" by simp
  with h show "findStacktrace e hook (Some outer)
      = Inr (Some \<lparr>Frames = rev (retained_frames e hook foreign)\<rparr>)"
    using findStacktrace_last_foreign[of "Some outer" "outer # before" x after foreign e]
    by blast
qed

theorem findStacktrace_outer_direct_witness:
  "GetStacktrace direct_error = Some (Some \<lparr>Frames = [sample_frame]\<rparr>)
   \<and> chain (Some direct_error) = direct_error # [foreign_error]
   \<and> GetStacktrace foreign_error = None
   \<and> StackTrace foreign_error = Some (Some [4198410, 4198499, 4198430])
   \<and> FuncForPC sample_env 4198410 \<noteq> None
   \<and> FuncForPC sample_env 4198499 \<noteq> None
   \<and> FuncForPC sample_env 4198430 \<noteq> None
   \<and> findStacktrace sample_env sample_hook (Some direct_error)
       = Inr (Some \<lparr>Frames =
           [\<lparr>AbsolutePath = ''/app/main.go'', Lineno = 30, Module = ''main'',
              Function = ''run'', InApp = True\<rparr>,
            \<lparr>AbsolutePath = ''/app/main.go'', Lineno = 10, Module = ''main'',
              Function = ''run'', InApp = True\<rparr>]\<rparr>)
   \<and> GetStacktrace direct_over_nil_error = Some (Some \<lparr>Frames = [sample_frame]\<rparr>)
   \<and> chain (Some direct_over_nil_error) = direct_over_nil_error # [nil_trace_error]
   \<and> GetStacktrace nil_trace_error = None
   \<and> StackTrace nil_trace_error = Some None
   \<and> findStacktrace sample_env sample_hook (Some direct_over_nil_error) = Inr None"
proof -
  have a: "GetStacktrace direct_error = Some (Some \<lparr>Frames = [sample_frame]\<rparr>)"
    by (simp add: direct_error_def)
  have b: "chain (Some direct_error) = direct_error # [foreign_error]"
    by (simp add: direct_error_def foreign_error_def)
  have c: "GetStacktrace foreign_error = None"
    "StackTrace foreign_error = Some (Some [4198410, 4198499, 4198430])"
    by (simp_all add: foreign_error_def)
  have d: "FuncForPC sample_env 4198410 \<noteq> None" "FuncForPC sample_env 4198499 \<noteq> None"
    "FuncForPC sample_env 4198430 \<noteq> None"
    by (simp_all add: sample_env_def)
  have a': "GetStacktrace direct_over_nil_error = Some (Some \<lparr>Frames = [sample_frame]\<rparr>)"
    by (simp add: direct_over_nil_error_def)
  have b': "chain (Some direct_over_nil_error) = direct_over_nil_error # [nil_trace_error]"
    by (simp add: direct_over_nil_error_def nil_trace_error_def)
  have c': "GetStacktrace nil_trace_error = None" "StackTrace nil_trace_error = Some None"
    by (simp_all add: nil_trace_error_def)
  from findStacktrace_outer_direct[OF a b, of sample_env sample_hook]
  have "\<forall>before x after foreign.
            [foreign_error] = before @ x # after \<and> (\<forall>y\<in>set after. exposes_no_trace y)
              \<and> GetStacktrace x = None \<and> StackTrace x = Some (Some foreign)
              \<and> (\<forall>pc\<in>set foreign. FuncForPC sample_env pc \<noteq> None)
            \<longrightarrow> findStacktrace sample_env sample_hook (Some direct_error)
                  = Inr (Some \<lparr>Frames = rev (retained_frames sample_env sample_hook foreign)\<rparr>)"
    by blast
  from this[rule_format, of "[]" foreign_error "[]" "[4198410, 4198499, 4198430]"] c d
  have r1: "findStacktrace sample_env sample_hook (Some direct_error)
       = Inr (Some \<lparr>Frames =
           [\<lparr>AbsolutePath = ''/app/main.go'', Lineno = 30, Module = ''main'',
              Function = ''run'', InApp = True\<rparr>,
            \<lparr>AbsolutePath = ''/app/main.go'', Lineno = 10, Module = ''main'',
              Function = ''run'', InApp = True\<rparr>]\<rparr>)"
    by (simp add: sample_retained)
  from findStacktrace_outer_direct[OF a' b', of sample_env sample_hook]
  have "\<forall>before x after.
            [nil_trace_error] = before @ x # after \<and> (\<forall>y\<in>set after. exposes_no_trace y)
              \<and> GetStacktrace x = None \<and> StackTrace x = Some None
            \<longrightarrow> findStacktrace sample_env sample_hook (Some direct_over_nil_error) = Inr None"
    by blast
  from this[rule_format, of "[]" nil_trace_error "[]"] c'
  have r2: "findStacktrace sample_env sample_hook (Some direct_over_nil_error) = Inr None"
    by simp
  from a b c d r1 a' b' c' r2 show ?thesis by simp
qed

text \<open>
  Claim C4 says that the resolver returns a trace of exactly M frames, less the dropped
  ones, whenever only the innermost error exposes a foreign-format trace of M raw frames.
  \<^verbatim>\<open>findStacktrace\<close> converts the foreign-format trace only when \<^verbatim>\<open>stackErr != nil\<close>:
  when the innermost error is a \<^verbatim>\<open>pkgErrorStackTracer\<close> whose \<^verbatim>\<open>StackTrace()\<close> is the nil
  slice (a trace of no frames), the resolver returns no trace at all, not a trace of no
  frames.
\<close>

theorem findStacktrace_nil_foreign_counterexample:
  "chain (Some wrapping_nil_error) = [wrapping_nil_error, nil_trace_error]
   \<and> exposes_no_trace wrapping_nil_error
   \<and> GetStacktrace nil_trace_error = None
   \<and> StackTrace nil_trace_error = Some None
   \<and> findStacktrace sample_env sample_hook (Some wrapping_nil_error) = Inr None
   \<and> findStacktrace sample_env sample_hook (Some wrapping_nil_error)
       \<noteq> Inr (Some \<lparr>Frames = []\<rparr>)"
  by (simp add: findStacktrace_def visit_def exposes_no_trace_def wrapping_nil_error_def
      nil_trace_error_def)

text \<open>
  Claim C4 as amended. For every error chain in which the innermost error exposes a
  foreign-format trace and no direct-format one (it is a \<^verbatim>\<open>pkgErrorStackTracer\<close> and not
  a \<^verbatim>\<open>Stacktracer\<close>): when that trace is the nil slice, the resolver returns no trace;
  when that trace is not nil, of \<open>length raw\<close> raw frames, each lying in a function known
  to the runtime, the resolver returns a trace of exactly \<open>length raw\<close> frames minus the
  dropped ones (those for which the frame constructor returns nil), and the returned
  frames are the retained frames in reverse order: output frame \<open>i\<close> is retained frame
  \<open>count - 1 - i\<close>. What the links above the innermost one expose does not matter.
\<close>

theorem findStacktrace_innermost_foreign:
  assumes "chain (Some err) = outer @ [innermost]"
    and "GetStacktrace innermost = None"
  shows "(StackTrace innermost = Some None \<longrightarrow> findStacktrace e hook (Some err) = Inr None)
     \<and> (\<forall>raw. StackTrace innermost = Some (Some raw)
            \<and> (\<forall>pc\<in>set raw. FuncForPC e pc \<noteq> None) \<longrightarrow>
          (\<exists>st. findStacktrace e hook (Some err) = Inr (Some st)
            \<and> length (Frames st) = length raw - length (filter (dropped e hook) raw)
            \<and> Frames st = rev (retained_frames e hook raw)
            \<and> (\<forall>i<length (Frames st).
                  Frames st ! i
                    = retained_frames e hook raw
                        ! (length (retained_frames e hook raw) - 1 - i))))"
proof (intro conjI allI impI)
  assume "StackTrace innermost = Some None"
  with assms show "findStacktrace e hook (Some err) = Inr None"
    using findStacktrace_last_nil_foreign[of "Some err" outer innermost "[]"] by simp
next
  fix raw
  assume h: "StackTrace innermost = Some (Some raw) \<and> (\<forall>pc\<in>set raw. FuncForPC e pc \<noteq> None)"
  then have resolved: "\<forall>pc\<in>set raw. FuncForPC e pc \<noteq> None" by simp
  from h assms have found: "findStacktrace e hook (Some err)
      = Inr (Some \<lparr>Frames = rev (retained_frames e hook raw)\<rparr>)"
    using findStacktrace_last_foreign[of "Some err" outer innermost "[]" raw e hook] by simp
  have "\<forall>i<length (retained_frames e hook raw).
      rev (retained_frames e hook raw) ! i
        = retained_frames e hook raw ! (length (retained_frames e hook raw) - 1 - i)"
    by (simp add: rev_nth)
  with found length_retained_frames[OF resolved, of hook]
  show "\<exists>st. findStacktrace e hook (Some err) = Inr (Some st)
      \<and> length (Frames st) = length raw - length (filter (dropped e hook) raw)
      \<and> Frames st = rev (retained_frames e hook raw)
      \<and> (\<forall>i<length (Frames st).
            Frames st ! i
              = retained_frames e hook raw ! (length (retained_frames e hook raw) - 1 - i))"
    by simp
qed

theorem findStacktrace_innermost_foreign_witness:
  "chain (Some wrapping_error) = [wrapping_error] @ [foreign_error]
   \<and> GetStacktrace foreign_error = None
   \<and> StackTrace foreign_error = Some (Some [4198410, 4198499, 4198430])
   \<and> FuncForPC sample_env 4198410 \<noteq> None
   \<and> FuncForPC sample_env 4198499 \<noteq> None
   \<and> FuncForPC sample_env 4198430 \<noteq> None
   \<and> filter (dropped sample_env sample_hook) [4198410, 4198499, 4198430] = [4198499]
   \<and> (\<exists>st. findStacktrace sample_env sample_hook (Some wrapping_error) = Inr (Some st)
        \<and> length (Frames st) = 2
        \<and> map Lineno (Frames st) = [30, 10])
   \<and> chain (Some wrapping_nil_error) = [wrapping_nil_error] @ [nil_trace_error]
   \<and> GetStacktrace nil_trace_error = None
   \<and> StackTrace nil_trace_error = Some None
   \<and> findStacktrace sample_env sample_hook (Some wrapping_nil_error) = Inr None"
proof -
  have a: "chain (Some wrapping_error) = [wrapping_error] @ [foreign_error]"
    by (simp add: wrapping_error_def foreign_error_def)
  have b: "GetStacktrace foreign_error = None"
    and c: "StackTrace foreign_error = Some (Some [4198410, 4198499, 4198430])"
    by (simp_all add: foreign_error_def)
  have d: "FuncForPC sample_env 4198410 \<noteq> None" "FuncForPC sample_env 4198499 \<noteq> None"
    "FuncForPC sample_env 4198430 \<noteq> None"
    by (simp_all add: sample_env_def)
  have a': "chain (Some wrapping_nil_error) = [wrapping_nil_error] @ [nil_trace_error]"
    by (simp add: wrapping_nil_error_def nil_trace_error_def)
  have b': "GetStacktrace nil_trace_error = None"
    and c': "StackTrace nil_trace_error = Some None"
    by (simp_all add: nil_trace_error_def)
  from findStacktrace_innermost_foreign[OF a b, of sample_env sample_hook] c sample_resolved
  obtain st where "findStacktrace sample_env sample_hook (Some wrapping_error) = Inr (Some st)"
    and "length (Frames st) = length [4198410, 4198499, 4198430 :: uintptr]
          - length (filter (dropped sample_env sample_hook) [4198410, 4198499, 4198430])"
    and "Frames st = rev (retained_frames sample_env sample_hook [4198410, 4198499, 4198430])"
    by blast
  then have r1: "\<exists>st. findStacktrace sample_env sample_hook (Some wrapping_error) = Inr (Some st)
        \<and> length (Frames st) = 2 \<and> map Lineno (Frames st) = [30, 10]"
    by (simp add: sample_dropped sample_retained)
  from findStacktrace_innermost_foreign[OF a' b', of sample_env sample_hook] c'
  have r2: "findStacktrace sample_env sample_hook (Some wrapping_nil_error) = Inr None"
    by blast
  from a b c d sample_dropped r1 a' b' c' r2 show ?thesis by simp
qed

text \<open>
  Claim C8 says that the conversion never panics and drops every raw frame whose symbol
  resolution fails. The conversion drops a raw frame only when the frame constructor
  returns nil. When \<^verbatim>\<open>runtime.FuncForPC\<close> finds no function for a raw frame, the
  conversion calls \<^verbatim>\<open>FileLine\<close> on nil: on the one-frame trace with program counter 0
  it panics, and so does the resolver on an error that carries this trace.
\<close>

theorem convertStackTrace_unresolved_frame:
  "FuncForPC sample_env 0 = None
   \<and> convertStackTrace sample_env sample_hook [0] = Inl NilDereference
   \<and> findStacktrace sample_env sample_hook
       (Some (Error ''remote failure'' ''*rpc.remoteError'' None (Some (Some [0])) None))
     = Inl NilDereference"
  by (simp add: findStacktrace_def visit_def convertStackTrace_def newFrame_def sample_env_def)

subsection \<open>The parts of Fire\<close>

text \<open>
  What each part of \<^verbatim>\<open>Fire\<close> leaves unchanged, and what a result of \<^verbatim>\<open>Fire\<close> says about
  the parts.
\<close>

lemma Level_set_special_fields: "Level (set_special_fields hook df packet) = Level packet"
  by (simp add: set_special_fields_def Let_def split: option.splits)

lemma Extra_set_special_fields: "Extra (set_special_fields hook df packet) = Extra packet"
  by (simp add: set_special_fields_def Let_def split: option.splits)

lemma set_stacktrace_data_frame:
  "set_stacktrace_data e hook entry df packet = Inr packet' \<Longrightarrow>
   Level packet' = Level packet \<and> Extra packet' = Extra packet"
  by (auto simp: set_stacktrace_data_def Let_def split: if_splits option.splits sum.splits)

lemma set_other_fields_frame:
  "Level (set_other_fields hook df packet) = Level packet
   \<and> Interfaces (set_other_fields hook df packet) = Interfaces packet
   \<and> Culprit (set_other_fields hook df packet) = Culprit packet"
  by (simp add: set_other_fields_def Let_def split: option.splits)

lemma build_packet_Inr:
  "build_packet e hook entry = Inr packet \<Longrightarrow>
   \<exists>traced. set_stacktrace_data e hook entry (newDataField e (entry_Data entry))
       (set_special_fields hook (newDataField e (entry_Data entry)) (new_packet e entry))
       = Inr traced
     \<and> packet = set_other_fields hook (newDataField e (entry_Data entry)) traced"
  by (auto simp: build_packet_def Let_def split: sum.splits)

lemma Fire_Inr:
  "Fire e hook entry ready = Inr fired \<Longrightarrow> build_packet e hook entry = Inr (captured fired)"
  by (auto simp: Fire_def split: sum.splits if_splits select_case.splits)


text \<open>
  \<^verbatim>\<open>Fire\<close> panics in two cases only, both in the stack-trace part with an error in the
  entry: the resolver panics, or the current stack trace is nil and
  \<^verbatim>\<open>SwitchExceptionTypeAndMessage\<close> is set.
\<close>

lemma build_packet_panics:
  assumes "build_packet e hook entry = Inl p"
  shows "stacktrace_wanted hook entry
     \<and> (\<exists>err. getError (newDataField e (entry_Data entry)) = Some err
          \<and> (findStacktrace e hook (Some err) = Inl p
              \<or> SwitchExceptionTypeAndMessage (StacktraceConfiguration hook)
                \<and> current_stacktrace e hook err = Inr None \<and> p = NilDereference))"
  using assms
  by (auto simp: build_packet_def set_stacktrace_data_def current_stacktrace_def Let_def
      split: sum.splits if_splits option.splits)

text \<open>With stack traces not wanted for the entry, \<^verbatim>\<open>Fire\<close> builds its packet and returns.\<close>

lemma build_packet_not_wanted:
  "\<not> stacktrace_wanted hook entry \<Longrightarrow> \<exists>packet. build_packet e hook entry = Inr packet"
  by (simp add: build_packet_def set_stacktrace_data_def Let_def split: option.splits)

lemma Fire_returns:
  "build_packet e hook entry = Inr packet \<Longrightarrow> \<exists>fired. Fire e hook entry ready = Inr fired"
  by (simp add: Fire_def split: select_case.splits)

lemma not_wanted_sample: "\<not> stacktrace_wanted sample_hook entry"
  by (simp add: stacktrace_wanted_def sample_hook_def)

lemma sample_error_view:
  "getError (newDataField sample_env (entry_Data (error_entry err))) = Some err"
  by (simp add: sample_env_def sample_dataField_def error_entry_def)

lemma sample_base:
  "Interfaces (set_special_fields sample_hook
      (newDataField sample_env (entry_Data (error_entry err)))
      (new_packet sample_env (error_entry err))) = []"
  by (simp add: set_special_fields_def sample_env_def sample_dataField_def new_packet_def
      sample_packet_def sample_hook_def Let_def)


text \<open>The stack-trace part, branch by branch.\<close>

lemma set_stacktrace_data_not_wanted:
  "\<not> stacktrace_wanted hook entry \<Longrightarrow>
   set_stacktrace_data e hook entry df packet =
     Inr (case getError df of
            Some err \<Rightarrow> packet\<lparr>Culprit := Error_text err\<rparr>
          | None \<Rightarrow> packet)"
  by (simp add: set_stacktrace_data_def split: option.splits)

lemma set_stacktrace_data_no_error:
  "stacktrace_wanted hook entry \<Longrightarrow> getError df = None \<Longrightarrow>
   set_stacktrace_data e hook entry df packet =
     Inr (case new_stacktrace e hook of
            Some st \<Rightarrow> packet\<lparr>Interfaces := Interfaces packet @ [Stacktrace_interface (Some st)]\<rparr>
          | None \<Rightarrow> packet)"
  by (simp add: set_stacktrace_data_def split: option.splits)

lemma set_stacktrace_data_switch:
  "stacktrace_wanted hook entry \<Longrightarrow> getError df = Some err \<Longrightarrow>
   current_stacktrace e hook err = Inr (Some st) \<Longrightarrow>
   SwitchExceptionTypeAndMessage (StacktraceConfiguration hook) \<Longrightarrow>
   set_stacktrace_data e hook entry df packet =
     Inr (packet
       \<lparr>Culprit := exc_Type (exception e hook err (Some st)) @ '': '' @ Stacktrace_Culprit e st,
        Interfaces := Interfaces packet @ [Stacktrace_interface (Some st)]\<rparr>)"
  by (simp add: set_stacktrace_data_def Let_def)

lemma set_stacktrace_data_exception:
  "stacktrace_wanted hook entry \<Longrightarrow> getError df = Some err \<Longrightarrow>
   current_stacktrace e hook err = Inr cur \<Longrightarrow>
   \<not> SwitchExceptionTypeAndMessage (StacktraceConfiguration hook) \<Longrightarrow>
   set_stacktrace_data e hook entry df packet =
     Inr (packet
       \<lparr>Culprit := Error_text err,
        Interfaces := Interfaces packet @ [Exception_interface (exception e hook err cur)]\<rparr>)"
  by (simp add: set_stacktrace_data_def Let_def)

lemma exception_unfold:
  "exception e hook err cur =
     (if SendExceptionType (StacktraceConfiguration hook)
      then NewException e (case errors_Cause e err of None \<Rightarrow> err | Some c \<Rightarrow> c) cur
      else (NewException e (case errors_Cause e err of None \<Rightarrow> err | Some c \<Rightarrow> c) cur)
             \<lparr>exc_Type := []\<rparr>)"
  by (simp add: exception_def Let_def)

lemma set_stacktrace_data_with_error:
  assumes "stacktrace_wanted hook entry" and "getError df = Some err"
    and "set_stacktrace_data e hook entry df packet = Inr traced"
  shows "\<exists>found cur. findStacktrace e hook (Some err) = Inr found
      \<and> cur = (case found of None \<Rightarrow> new_stacktrace e hook | Some st \<Rightarrow> Some st)
      \<and> (if SwitchExceptionTypeAndMessage (StacktraceConfiguration hook)
          then \<exists>st. cur = Some st
                 \<and> traced = packet
                     \<lparr>Culprit := exc_Type (exception e hook err cur) @ '': ''
                                   @ Stacktrace_Culprit e st,
                      Interfaces := Interfaces packet @ [Stacktrace_interface (Some st)]\<rparr>
          else traced = packet
                 \<lparr>Culprit := Error_text err,
                  Interfaces := Interfaces packet
                    @ [Exception_interface (exception e hook err cur)]\<rparr>)"
  using assms
  by (auto simp: set_stacktrace_data_def current_stacktrace_def Let_def
      split: sum.splits option.splits if_splits)

lemma sample_plain_view:
  "getError (newDataField sample_env (entry_Data plain_entry)) = None"
  by (simp add: sample_env_def sample_dataField_def plain_entry_def)


lemma sample_current_stacktrace:
  "current_stacktrace sample_env (tracing_hook switch) plain_error
     = Inr (Some \<lparr>Frames = [\<lparr>AbsolutePath = ''/app/main.go'', Lineno = 42,
                                Module = ''main'', Function = ''run'', InApp = True\<rparr>]\<rparr>)"
  by (simp add: current_stacktrace_def findStacktrace_def plain_error_def visit_def
      new_stacktrace_def tracing_hook_def sample_hook_def sample_env_def)


text \<open>
  The loop of \<^verbatim>\<open>formatExtraData\<close> keeps the keys of its result distinct; the result holds
  every field that is neither omitted nor ignored, under its filter or the default
  formatter. The merge loop writes every pair of the formatted data over the packet's
  extra data.
\<close>

lemma distinct_formatExtraData_loop:
  "distinct (map fst result) \<Longrightarrow>
   distinct (map fst (formatExtraData_loop hook df dat result))"
  by (induction hook df dat result rule: formatExtraData_loop.induct)
     (simp_all add: distinct_update)

lemma distinct_formatExtraData: "distinct (map fst (formatExtraData hook df))"
  by (simp add: formatExtraData_def distinct_formatExtraData_loop)

lemma map_of_formatExtraData_loop:
  "distinct (map fst dat) \<Longrightarrow>
   map_of (formatExtraData_loop hook df dat result) k =
     (case map_of dat k of
        Some v \<Rightarrow>
          if isOmit df k \<or> lookup (ignoreFields hook) k \<noteq> None then map_of result k
          else Some (case lookup (extraFilters hook) k of
                       Some fn \<Rightarrow> fn v
                     | None \<Rightarrow> formatData v)
      | None \<Rightarrow> map_of result k)"
proof (induction hook df dat result rule: formatExtraData_loop.induct)
  case (1 hook df result)
  then show ?case by simp
next
  case (2 hook df k' v rest result)
  from "2.prems" have fresh: "map_of rest k' = None" and rest: "distinct (map fst rest)"
    by (auto simp: map_of_eq_None_iff)
  show ?case
  proof (cases "isOmit df k'")
    case True
    with "2.IH"(1)[OF True rest] fresh show ?thesis by (auto split: option.splits)
  next
    case False
    show ?thesis
    proof (cases "lookup (ignoreFields hook) k' \<noteq> None")
      case True
      with False "2.IH"(2)[OF False True rest] fresh show ?thesis
        by (auto split: option.splits)
    next
      case notignored: False
      with False "2.IH"(3)[OF False notignored rest] fresh show ?thesis
        by (auto simp: update_conv' split: option.splits)
    qed
  qed
qed

lemma map_of_formatExtraData:
  "distinct (map fst (data df)) \<Longrightarrow>
   map_of (formatExtraData hook df) k =
     (case map_of (data df) k of
        Some v \<Rightarrow>
          if isOmit df k \<or> lookup (ignoreFields hook) k \<noteq> None then None
          else Some (case lookup (extraFilters hook) k of
                       Some fn \<Rightarrow> fn v
                     | None \<Rightarrow> formatData v)
      | None \<Rightarrow> None)"
  by (simp add: formatExtraData_def map_of_formatExtraData_loop split: option.splits)

lemma map_of_merge_loop:
  "distinct (map fst dataExtra) \<Longrightarrow>
   map_of (merge_loop dataExtra extra) = map_of extra ++ map_of dataExtra"
proof (induction dataExtra arbitrary: extra)
  case Nil
  then show ?case by simp
next
  case (Cons kv rest)
  obtain k v where kv: "kv = (k, v)" by (cases kv)
  with Cons.prems have fresh: "k \<notin> dom (map_of rest)" and rest: "distinct (map fst rest)"
    by (auto simp: dom_map_of_conv_image_fst)
  have "map_of (merge_loop (kv # rest) extra) = (map_of extra)(k \<mapsto> v) ++ map_of rest"
    using Cons.IH[OF rest] kv by (simp add: update_conv' del: fun_upd_apply)
  also have "\<dots> = map_of extra ++ map_of (kv # rest)"
    using fresh kv by (auto simp: map_add_def fun_eq_iff split: option.splits)
  finally show ?case .
qed

lemma lookup_set_other_fields:
  "Extra packet = Some extra \<Longrightarrow>
   lookup (Extra (set_other_fields hook df packet)) k =
     (case map_of (formatExtraData hook df) k of
        Some v \<Rightarrow> Some v
      | None \<Rightarrow> map_of extra k)"
  by (simp add: set_other_fields_def Let_def lookup_def map_of_merge_loop
      distinct_formatExtraData map_add_def)


subsection \<open>The severity of the packet\<close>

lemma index_or_severityMap:
  "index_or [] severityMap l =
     (if l = DebugLevel then DEBUG
      else if l = InfoLevel then INFO
      else if l = WarnLevel then WARNING
      else if l = ErrorLevel then ERROR
      else if l = FatalLevel then FATAL
      else if l = PanicLevel then FATAL
      else [])"
  by (simp add: index_or_def severityMap_def)


text \<open>
  Claim C9. For every log entry, the severity of the packet that \<^verbatim>\<open>Fire\<close> captures is given
  by the fixed table: debug to DEBUG, info to INFO, warn to WARNING, error to ERROR, fatal
  to FATAL, panic to FATAL; any other level gives the zero value of \<^verbatim>\<open>raven.Severity\<close>,
  the empty string.
\<close>

theorem Fire_severity:
  assumes "Fire e hook entry ready = Inr fired"
  shows "Level (captured fired) =
     (if entry_Level entry = DebugLevel then DEBUG
      else if entry_Level entry = InfoLevel then INFO
      else if entry_Level entry = WarnLevel then WARNING
      else if entry_Level entry = ErrorLevel then ERROR
      else if entry_Level entry = FatalLevel then FATAL
      else if entry_Level entry = PanicLevel then FATAL
      else [])"
proof -
  from Fire_Inr[OF assms] build_packet_Inr obtain traced where
    traced: "set_stacktrace_data e hook entry (newDataField e (entry_Data entry))
       (set_special_fields hook (newDataField e (entry_Data entry)) (new_packet e entry))
       = Inr traced"
    and packet: "captured fired = set_other_fields hook (newDataField e (entry_Data entry)) traced"
    by blast
  have "Level (captured fired) = Level (new_packet e entry)"
    using set_stacktrace_data_frame[OF traced] packet
    by (simp add: set_other_fields_frame Level_set_special_fields)
  also have "\<dots> = index_or [] severityMap (entry_Level entry)"
    by (simp add: new_packet_def)
  finally show ?thesis
    by (simp only: index_or_severityMap)
qed

theorem Fire_severity_witness:
  "\<exists>fired. Fire sample_env sample_hook (error_entry plain_error) from_timeoutCh = Inr fired
     \<and> Level (captured fired) = ''error''"
proof -
  obtain packet where "build_packet sample_env sample_hook (error_entry plain_error) = Inr packet"
    using build_packet_not_wanted[OF not_wanted_sample] by blast
  then obtain fired where
    fired: "Fire sample_env sample_hook (error_entry plain_error) from_timeoutCh = Inr fired"
    using Fire_returns by blast
  from Fire_severity[OF fired] have "Level (captured fired) = ''error''"
    by (simp add: error_entry_def ErrorLevel_def DebugLevel_def InfoLevel_def WarnLevel_def
        ERROR_def)
  with fired show ?thesis by blast
qed


subsection \<open>The constructors\<close>

text \<open>
  Claim C10. Every constructor that returns no error (from a DSN, from a DSN with tags,
  from a client; synchronous or asynchronous) returns a hook with a timeout of 100
  milliseconds, stack traces disabled at level Error, 5 frames skipped, 0 context lines,
  no in-app prefixes, the exception type sent, and empty maps, not nil, of ignored fields
  and extra filters. An asynchronous constructor returns what the synchronous one
  returns, with the flag \<^verbatim>\<open>asynchronous\<close> set.
\<close>

theorem constructors_default_configuration:
  "(\<forall>hook. NewWithClientHook cl lvls = (hook, None) \<longrightarrow>
      (\<exists>h. hook = Some h \<and> default_configuration h \<and> \<not> asynchronous h))
   \<and> (\<forall>hook. NewHook e DSN lvls = (hook, None) \<longrightarrow>
      (\<exists>h. hook = Some h \<and> default_configuration h \<and> \<not> asynchronous h))
   \<and> (\<forall>hook. NewWithTagsHook e DSN tags lvls = (hook, None) \<longrightarrow>
      (\<exists>h. hook = Some h \<and> default_configuration h \<and> \<not> asynchronous h))
   \<and> (\<forall>hook. NewAsyncWithClientHook cl lvls = (hook, None) \<longrightarrow>
      (\<exists>h. hook = Some h \<and> default_configuration h \<and> asynchronous h))
   \<and> (\<forall>hook. NewAsyncHook e DSN lvls = (hook, None) \<longrightarrow>
      (\<exists>h. hook = Some h \<and> default_configuration h \<and> asynchronous h))
   \<and> (\<forall>hook. NewAsyncWithTagsHook e DSN tags lvls = (hook, None) \<longrightarrow>
      (\<exists>h. hook = Some h \<and> default_configuration h \<and> asynchronous h))
   \<and> NewAsyncWithClientHook cl lvls
       = (map_option (\<lambda>h. h\<lparr>asynchronous := True\<rparr>) (fst (NewWithClientHook cl lvls)),
          snd (NewWithClientHook cl lvls))
   \<and> NewAsyncHook e DSN lvls
       = (map_option (\<lambda>h. h\<lparr>asynchronous := True\<rparr>) (fst (NewHook e DSN lvls)),
          snd (NewHook e DSN lvls))
   \<and> NewAsyncWithTagsHook e DSN tags lvls
       = (map_option (\<lambda>h. h\<lparr>asynchronous := True\<rparr>) (fst (NewWithTagsHook e DSN tags lvls)),
          snd (NewWithTagsHook e DSN tags lvls))"
proof -
  have client: "\<And>cl hook. NewWithClientHook cl lvls = (hook, None) \<Longrightarrow>
      \<exists>h. hook = Some h \<and> default_configuration h \<and> \<not> asynchronous h"
    by (auto simp: NewWithClientHook_def default_configuration_def Millisecond_def)
  have dsn: "\<And>hook. NewHook e DSN lvls = (hook, None) \<Longrightarrow>
      \<exists>h. hook = Some h \<and> default_configuration h \<and> \<not> asynchronous h"
    using client by (auto simp: NewHook_def split: prod.splits option.splits)
  have tags: "\<And>hook. NewWithTagsHook e DSN tags lvls = (hook, None) \<Longrightarrow>
      \<exists>h. hook = Some h \<and> default_configuration h \<and> \<not> asynchronous h"
    using client by (auto simp: NewWithTagsHook_def split: prod.splits option.splits)
  have async: "\<And>hook h. hook = Some h \<Longrightarrow> default_configuration h \<Longrightarrow>
      \<exists>h'. setAsync hook = Some h' \<and> default_configuration h' \<and> asynchronous h'"
    by (simp add: setAsync_def default_configuration_def)
  have setAsync: "\<And>hook. setAsync hook = map_option (\<lambda>h. h\<lparr>asynchronous := True\<rparr>) hook"
    by (simp add: setAsync_def split: option.splits)
  have a1: "\<And>hook. NewAsyncWithClientHook cl lvls = (hook, None) \<Longrightarrow>
      \<exists>h. hook = Some h \<and> default_configuration h \<and> asynchronous h"
    using client async by (fastforce simp: NewAsyncWithClientHook_def split: prod.splits)
  have a2: "\<And>hook. NewAsyncHook e DSN lvls = (hook, None) \<Longrightarrow>
      \<exists>h. hook = Some h \<and> default_configuration h \<and> asynchronous h"
    using dsn async by (fastforce simp: NewAsyncHook_def split: prod.splits)
  have a3: "\<And>hook. NewAsyncWithTagsHook e DSN tags lvls = (hook, None) \<Longrightarrow>
      \<exists>h. hook = Some h \<and> default_configuration h \<and> asynchronous h"
    using tags async by (fastforce simp: NewAsyncWithTagsHook_def split: prod.splits)
  have e1: "NewAsyncWithClientHook cl lvls
       = (map_option (\<lambda>h. h\<lparr>asynchronous := True\<rparr>) (fst (NewWithClientHook cl lvls)),
          snd (NewWithClientHook cl lvls))"
    by (simp add: NewAsyncWithClientHook_def setAsync split: prod.splits)
  have e2: "NewAsyncHook e DSN lvls
       = (map_option (\<lambda>h. h\<lparr>asynchronous := True\<rparr>) (fst (NewHook e DSN lvls)),
          snd (NewHook e DSN lvls))"
    by (simp add: NewAsyncHook_def setAsync split: prod.splits)
  have e3: "NewAsyncWithTagsHook e DSN tags lvls
       = (map_option (\<lambda>h. h\<lparr>asynchronous := True\<rparr>) (fst (NewWithTagsHook e DSN tags lvls)),
          snd (NewWithTagsHook e DSN tags lvls))"
    by (simp add: NewAsyncWithTagsHook_def setAsync split: prod.splits)
  from client dsn tags a1 a2 a3 e1 e2 e3 show ?thesis by blast
qed

theorem constructors_default_configuration_witness:
  "(\<exists>h. NewHook sample_env ''https://key@sentry.example/1'' [ErrorLevel] = (Some h, None)
        \<and> default_configuration h \<and> \<not> asynchronous h)
   \<and> (\<exists>h. NewAsyncWithTagsHook sample_env ''https://key@sentry.example/1''
          [(''service'', ''api'')] [ErrorLevel] = (Some h, None)
        \<and> default_configuration h \<and> asynchronous h)
   \<and> NewAsyncHook sample_env [] [ErrorLevel]
       = (None, Some (Error ''raven: dsn missing'' ''*errors.errorString'' None None None))"
proof -
  have s: "snd (NewHook sample_env ''https://key@sentry.example/1'' [ErrorLevel]) = None"
    by (simp add: NewHook_def NewWithClientHook_def sample_env_def)
  have a: "snd (NewAsyncWithTagsHook sample_env ''https://key@sentry.example/1''
          [(''service'', ''api'')] [ErrorLevel]) = None"
    by (simp add: NewAsyncWithTagsHook_def NewWithTagsHook_def NewWithClientHook_def
        sample_env_def)
  have f: "NewHook sample_env [] [ErrorLevel]
      = (None, Some (Error ''raven: dsn missing'' ''*errors.errorString'' None None None))"
    by (simp add: NewHook_def sample_env_def)
  note c = constructors_default_configuration[of "None" "[ErrorLevel]" sample_env
      "''https://key@sentry.example/1''" "[(''service'', ''api'')]"]
  note d = constructors_default_configuration[of "None" "[ErrorLevel]" sample_env "[]" "[]"]
  have "\<exists>h. NewHook sample_env ''https://key@sentry.example/1'' [ErrorLevel] = (Some h, None)
        \<and> default_configuration h \<and> \<not> asynchronous h"
    using c s by (metis prod.collapse)
  moreover have "\<exists>h. NewAsyncWithTagsHook sample_env ''https://key@sentry.example/1''
          [(''service'', ''api'')] [ErrorLevel] = (Some h, None)
        \<and> default_configuration h \<and> asynchronous h"
    using c a by (metis prod.collapse)
  moreover have "NewAsyncHook sample_env [] [ErrorLevel]
       = (None, Some (Error ''raven: dsn missing'' ''*errors.errorString'' None None None))"
    using d f by simp
  ultimately show ?thesis by blast
qed


subsection \<open>What Fire returns\<close>

text \<open>
  Claim C3. For every packet that \<^verbatim>\<open>Fire\<close> builds: an asynchronous hook returns nil,
  whatever the delivery does; a synchronous hook with a zero timeout returns nil without
  waiting; a synchronous hook with another timeout returns the error of the delivery
  (nil when the delivery succeeded) when the delivery answers first, and the error
  "no response from sentry server in" followed by the configured timeout when the timer
  fires first.
\<close>

theorem Fire_returned:
  assumes "build_packet e hook entry = Inr packet"
  shows "(asynchronous hook \<longrightarrow>
            (\<forall>ready. Fire e hook entry ready
               = Inr \<lparr>captured = packet, returned = None, registered = True\<rparr>))
       \<and> (\<not> asynchronous hook \<and> Timeout hook = 0 \<longrightarrow>
            (\<forall>ready. Fire e hook entry ready
               = Inr \<lparr>captured = packet, returned = None, registered = False\<rparr>))
       \<and> (\<not> asynchronous hook \<and> Timeout hook \<noteq> 0 \<longrightarrow>
            (\<forall>err. Fire e hook entry (from_errCh err)
               = Inr \<lparr>captured = packet, returned = err, registered = False\<rparr>)
            \<and> Fire e hook entry from_timeoutCh
               = Inr \<lparr>captured = packet,
                      returned = Some (Errorf_no_response e (Timeout hook)),
                      registered = False\<rparr>
            \<and> Error_text (Errorf_no_response e (Timeout hook))
               = ''no response from sentry server in '' @ Duration_String e (Timeout hook))"
  using assms by (simp add: Fire_def Errorf_no_response_def)

theorem Fire_returned_witness:
  "\<exists>packet. build_packet sample_env sample_hook (error_entry plain_error) = Inr packet
     \<and> Fire sample_env sample_hook (error_entry plain_error) (from_errCh None)
         = Inr \<lparr>captured = packet, returned = None, registered = False\<rparr>
     \<and> Fire sample_env sample_hook (error_entry plain_error) from_timeoutCh
         = Inr \<lparr>captured = packet,
                returned = Some (Error ''no response from sentry server in 100ms''
                                  ''*errors.errorString'' None None None),
                registered = False\<rparr>
     \<and> Fire sample_env (sample_hook\<lparr>asynchronous := True\<rparr>) (error_entry plain_error)
           from_timeoutCh
         = Inr \<lparr>captured = packet, returned = None, registered = True\<rparr>"
proof -
  obtain packet where
    packet: "build_packet sample_env sample_hook (error_entry plain_error) = Inr packet"
    using build_packet_not_wanted[OF not_wanted_sample] by blast
  have same: "build_packet sample_env (sample_hook\<lparr>asynchronous := True\<rparr>)
      (error_entry plain_error) = build_packet sample_env sample_hook (error_entry plain_error)"
    by (simp add: build_packet_def set_stacktrace_data_def stacktrace_wanted_def
        set_special_fields_def set_other_fields_def formatExtraData_def sample_hook_def
        sample_env_def error_entry_def sample_dataField_def lookup_def Let_def)
  have sync: "\<not> asynchronous sample_hook \<and> Timeout sample_hook \<noteq> 0"
    by (simp add: sample_hook_def Millisecond_def)
  have msg: "Errorf_no_response sample_env (Timeout sample_hook)
      = Error ''no response from sentry server in 100ms'' ''*errors.errorString'' None None None"
    by (simp add: Errorf_no_response_def sample_env_def sample_hook_def Millisecond_def)
  from Fire_returned[OF packet] sync msg
  have "Fire sample_env sample_hook (error_entry plain_error) (from_errCh None)
         = Inr \<lparr>captured = packet, returned = None, registered = False\<rparr>"
    and "Fire sample_env sample_hook (error_entry plain_error) from_timeoutCh
         = Inr \<lparr>captured = packet,
                returned = Some (Error ''no response from sentry server in 100ms''
                                  ''*errors.errorString'' None None None),
                registered = False\<rparr>"
    by simp_all
  moreover from Fire_returned[OF packet[folded same]]
  have "Fire sample_env (sample_hook\<lparr>asynchronous := True\<rparr>) (error_entry plain_error)
           from_timeoutCh
         = Inr \<lparr>captured = packet, returned = None, registered = True\<rparr>"
    by simp
  ultimately show ?thesis using packet by blast
qed


subsection \<open>The extra data\<close>

text \<open>
  Claim C1 says that the merge of the formatted fields into the packet's extra data never
  overwrites a key that the packet already has. The loop assigns
  \<^verbatim>\<open>packet.Extra[k] = v\<close> for every formatted field: on the entry with the field
  \<^verbatim>\<open>runtime.NumCPU\<close>, a key that the new packet already carries, the packet ends with the
  value of the entry.
\<close>

theorem set_other_fields_overwrites_counterexample:
  "lookup (Extra (new_packet sample_env (error_entry plain_error))) ''runtime.NumCPU''
     = Some (Dyn False None None (Num 8))
   \<and> \<not> isl (build_packet sample_env sample_hook (error_entry plain_error))
   \<and> lookup (Extra (projr (build_packet sample_env sample_hook (error_entry plain_error))))
       ''runtime.NumCPU''
     = Some (Dyn False None None (Str ''many''))
   \<and> lookup (Extra (projr (build_packet sample_env sample_hook (error_entry plain_error))))
       ''runtime.NumCPU''
     \<noteq> lookup (Extra (new_packet sample_env (error_entry plain_error))) ''runtime.NumCPU''"
  by (simp add: build_packet_def set_stacktrace_data_def stacktrace_wanted_def
      set_special_fields_def set_other_fields_def formatExtraData_def new_packet_def
      sample_hook_def sample_env_def sample_packet_def error_entry_def sample_dataField_def
      lookup_def formatData_def string_value_def plain_error_def Let_def)


text \<open>
  Claim C1 as amended. For every log entry whose new packet has an extra-data map, the
  merge writes every formatted field of the entry into that map: on a key conflict the
  formatted value of the entry replaces the value the packet had, and every key of the
  packet that is not a key of the formatted data keeps its value.
\<close>

theorem set_other_fields_merge:
  assumes "build_packet e hook entry = Inr packet"
    and "Extra (new_packet e entry) = Some extra"
  shows "lookup (Extra packet) k =
     (case map_of (formatExtraData hook (newDataField e (entry_Data entry))) k of
        Some v \<Rightarrow> Some v
      | None \<Rightarrow> map_of extra k)"
proof -
  from build_packet_Inr[OF assms(1)] obtain traced where
    traced: "set_stacktrace_data e hook entry (newDataField e (entry_Data entry))
       (set_special_fields hook (newDataField e (entry_Data entry)) (new_packet e entry))
       = Inr traced"
    and packet: "packet = set_other_fields hook (newDataField e (entry_Data entry)) traced"
    by blast
  have "Extra traced = Some extra"
    using set_stacktrace_data_frame[OF traced] assms(2)
    by (simp add: Extra_set_special_fields)
  then show ?thesis
    unfolding packet by (rule lookup_set_other_fields)
qed

theorem set_other_fields_merge_witness:
  "\<exists>packet. build_packet sample_env sample_hook (error_entry plain_error) = Inr packet
     \<and> Extra (new_packet sample_env (error_entry plain_error))
         = Some [(''runtime.NumCPU'', Dyn False None None (Num 8))]
     \<and> map_of (formatExtraData sample_hook
                 (newDataField sample_env (entry_Data (error_entry plain_error))))
           ''runtime.NumCPU'' = Some (string_value ''many'')
     \<and> lookup (Extra packet) ''runtime.NumCPU'' = Some (string_value ''many'')"
proof -
  obtain packet where
    packet: "build_packet sample_env sample_hook (error_entry plain_error) = Inr packet"
    using build_packet_not_wanted[OF not_wanted_sample] by blast
  have seeded: "Extra (new_packet sample_env (error_entry plain_error))
         = Some [(''runtime.NumCPU'', Dyn False None None (Num 8))]"
    by (simp add: new_packet_def sample_env_def sample_packet_def)
  have formatted: "map_of (formatExtraData sample_hook
                 (newDataField sample_env (entry_Data (error_entry plain_error))))
           ''runtime.NumCPU'' = Some (string_value ''many'')"
    by (simp add: formatExtraData_def sample_env_def sample_dataField_def error_entry_def
        sample_hook_def lookup_def formatData_def string_value_def)
  from set_other_fields_merge[OF packet seeded, of "''runtime.NumCPU''"] formatted
  have "lookup (Extra packet) ''runtime.NumCPU'' = Some (string_value ''many'')"
    by simp
  with packet seeded formatted show ?thesis by blast
qed


subsection \<open>The stack-trace part of Fire\<close>

text \<open>
  On the levels that logrus names, the numeric order is the order of severity, the most
  severe level first: a level is at least as severe as another one when it is at most
  that one as a number.
\<close>

lemma levels_by_severity:
  "PanicLevel < FatalLevel \<and> FatalLevel < ErrorLevel \<and> ErrorLevel < WarnLevel
   \<and> WarnLevel < InfoLevel \<and> InfoLevel < DebugLevel"
  by (simp add: PanicLevel_def FatalLevel_def ErrorLevel_def WarnLevel_def InfoLevel_def
      DebugLevel_def)

text \<open>
  Claim C5 says that the stack-trace or exception block is added to the packet if and only
  if stack traces are enabled and the level of the entry is at least as severe as the
  configured level. The branch without an error appends the new trace of the call site
  only when it is not nil (\<^verbatim>\<open>if currentStacktrace != nil\<close>): with the condition true, no
  error in the entry and a call stack no deeper than \<^verbatim>\<open>Skip\<close>, nothing is appended, and
  the packet is the one that the hook builds with stack traces disabled.
\<close>

theorem Fire_stacktrace_block_counterexample:
  "Enable (StacktraceConfiguration shallow_stack_hook)
   \<and> entry_Level plain_entry \<le> stacktrace_Level (StacktraceConfiguration shallow_stack_hook)
   \<and> getError (newDataField sample_env (entry_Data plain_entry)) = None
   \<and> NewStacktrace sample_env (Skip (StacktraceConfiguration shallow_stack_hook))
       (Context (StacktraceConfiguration shallow_stack_hook))
       (InAppPrefixes (StacktraceConfiguration shallow_stack_hook)) = None
   \<and> \<not> isl (build_packet sample_env shallow_stack_hook plain_entry)
   \<and> Interfaces (projr (build_packet sample_env shallow_stack_hook plain_entry)) = []
   \<and> \<not> Enable (StacktraceConfiguration sample_hook)
   \<and> build_packet sample_env shallow_stack_hook plain_entry
       = build_packet sample_env sample_hook plain_entry"
  by (simp add: build_packet_def set_stacktrace_data_def stacktrace_wanted_def
      new_stacktrace_def set_special_fields_def set_other_fields_def formatExtraData_def
      new_packet_def shallow_stack_hook_def sample_hook_def sample_env_def sample_packet_def
      plain_entry_def sample_dataField_def lookup_def formatData_def string_value_def Let_def)

text \<open>
  Claim C5 as amended. For every log entry for which \<^verbatim>\<open>Fire\<close> builds a packet: when stack
  traces are disabled or the level of the entry is less severe than the configured
  level, no stack-trace or exception interface is appended, and the culprit is the
  message text of the entry's error when the field view yields one. When stack traces
  are enabled and the level is at least as severe as the configured level (at most that
  level as a number): with an error, exactly one interface is appended, the exception
  descriptor (and the culprit is the message text of the error) or, when
  \<^verbatim>\<open>SwitchExceptionTypeAndMessage\<close> is set, the stack trace that the resolver found or,
  when it found none, the new trace of the call site (and the culprit is the type of the
  exception, empty when \<^verbatim>\<open>SendExceptionType\<close> is not set, a colon and the culprit of the
  trace); without an error, the new trace of the call site is appended when it is not
  nil, and nothing is appended when it is nil.
\<close>

theorem Fire_stacktrace_block:
  assumes "build_packet e hook entry = Inr packet"
    and "df = newDataField e (entry_Data entry)"
    and "base = set_special_fields hook df (new_packet e entry)"
    and "cfg = StacktraceConfiguration hook"
    and "fresh = NewStacktrace e (Skip cfg) (Context cfg) (InAppPrefixes cfg)"
  shows "(if Enable cfg \<and> entry_Level entry \<le> stacktrace_Level cfg
          then (case getError df of
                  Some err \<Rightarrow>
                    (\<exists>found cur exc.
                       findStacktrace e hook (Some err) = Inr found
                       \<and> cur = (case found of None \<Rightarrow> fresh | Some st \<Rightarrow> Some st)
                       \<and> exc = (if SendExceptionType cfg
                                then NewException e
                                       (case errors_Cause e err of None \<Rightarrow> err | Some c \<Rightarrow> c) cur
                                else (NewException e
                                       (case errors_Cause e err of None \<Rightarrow> err | Some c \<Rightarrow> c) cur)
                                       \<lparr>exc_Type := []\<rparr>)
                       \<and> (if SwitchExceptionTypeAndMessage cfg
                           then \<exists>st. cur = Some st
                                  \<and> Interfaces packet
                                      = Interfaces base @ [Stacktrace_interface (Some st)]
                                  \<and> Culprit packet
                                      = exc_Type exc @ '': '' @ Stacktrace_Culprit e st
                           else Interfaces packet
                                  = Interfaces base @ [Exception_interface exc]
                                \<and> Culprit packet = Error_text err))
                | None \<Rightarrow>
                    Interfaces packet = Interfaces base
                      @ (case fresh of
                           Some st \<Rightarrow> [Stacktrace_interface (Some st)]
                         | None \<Rightarrow> [])
                    \<and> Culprit packet = Culprit base)
          else Interfaces packet = Interfaces base
             \<and> Culprit packet = (case getError df of
                                  Some err \<Rightarrow> Error_text err
                                | None \<Rightarrow> Culprit base))"
proof -
  from build_packet_Inr[OF assms(1)] assms(2,3) obtain traced where
    traced: "set_stacktrace_data e hook entry df base = Inr traced"
    and packet: "packet = set_other_fields hook df traced"
    by auto
  have same: "Interfaces packet = Interfaces traced" "Culprit packet = Culprit traced"
    unfolding packet by (simp_all add: set_other_fields_frame)
  have fresh: "new_stacktrace e hook = fresh"
    using assms(4,5) by (simp add: new_stacktrace_def)
  have cond: "stacktrace_wanted hook entry
      \<longleftrightarrow> Enable cfg \<and> entry_Level entry \<le> stacktrace_Level cfg"
    using assms(4) by (simp add: stacktrace_wanted_def)
  show ?thesis
  proof (cases "stacktrace_wanted hook entry")
    case False
    from traced set_stacktrace_data_not_wanted[OF False, of e df base]
    have "traced = (case getError df of
            Some err \<Rightarrow> base\<lparr>Culprit := Error_text err\<rparr> | None \<Rightarrow> base)"
      by simp
    with False same cond show ?thesis
      by (simp split: option.splits)
  next
    case True
    show ?thesis
    proof (cases "getError df")
      case None
      from traced set_stacktrace_data_no_error[OF True None, of e base]
      have "traced = (case fresh of
            Some st \<Rightarrow> base\<lparr>Interfaces := Interfaces base @ [Stacktrace_interface (Some st)]\<rparr>
          | None \<Rightarrow> base)"
        by (simp add: fresh)
      with True None same cond show ?thesis
        by (simp split: option.splits)
    next
      case (Some err)
      from set_stacktrace_data_with_error[OF True Some traced]
      obtain found cur where found: "findStacktrace e hook (Some err) = Inr found"
        and cur: "cur = (case found of None \<Rightarrow> fresh | Some st \<Rightarrow> Some st)"
        and block: "if SwitchExceptionTypeAndMessage (StacktraceConfiguration hook)
          then \<exists>st. cur = Some st
                 \<and> traced = base
                     \<lparr>Culprit := exc_Type (exception e hook err cur) @ '': ''
                                   @ Stacktrace_Culprit e st,
                      Interfaces := Interfaces base @ [Stacktrace_interface (Some st)]\<rparr>
          else traced = base
                 \<lparr>Culprit := Error_text err,
                  Interfaces := Interfaces base
                    @ [Exception_interface (exception e hook err cur)]\<rparr>"
        unfolding fresh by blast
      let ?exc = "exception e hook err cur"
      have exc: "?exc = (if SendExceptionType cfg
                                then NewException e
                                       (case errors_Cause e err of None \<Rightarrow> err | Some c \<Rightarrow> c) cur
                                else (NewException e
                                       (case errors_Cause e err of None \<Rightarrow> err | Some c \<Rightarrow> c) cur)
                                       \<lparr>exc_Type := []\<rparr>)"
        unfolding assms(4) by (rule exception_unfold)
      have "if SwitchExceptionTypeAndMessage cfg
                           then \<exists>st. cur = Some st
                                  \<and> Interfaces packet
                                      = Interfaces base @ [Stacktrace_interface (Some st)]
                                  \<and> Culprit packet
                                      = exc_Type ?exc @ '': '' @ Stacktrace_Culprit e st
                           else Interfaces packet
                                  = Interfaces base @ [Exception_interface ?exc]
                                \<and> Culprit packet = Error_text err"
        using block same assms(4) by (auto split: if_splits)
      with found cur exc have "\<exists>found cur exc.
                       findStacktrace e hook (Some err) = Inr found
                       \<and> cur = (case found of None \<Rightarrow> fresh | Some st \<Rightarrow> Some st)
                       \<and> exc = (if SendExceptionType cfg
                                then NewException e
                                       (case errors_Cause e err of None \<Rightarrow> err | Some c \<Rightarrow> c) cur
                                else (NewException e
                                       (case errors_Cause e err of None \<Rightarrow> err | Some c \<Rightarrow> c) cur)
                                       \<lparr>exc_Type := []\<rparr>)
                       \<and> (if SwitchExceptionTypeAndMessage cfg
                           then \<exists>st. cur = Some st
                                  \<and> Interfaces packet
                                      = Interfaces base @ [Stacktrace_interface (Some st)]
                                  \<and> Culprit packet
                                      = exc_Type exc @ '': '' @ Stacktrace_Culprit e st
                           else Interfaces packet
                                  = Interfaces base @ [Exception_interface exc]
                                \<and> Culprit packet = Error_text err)"
        by blast
      with True Some cond show ?thesis by simp
    qed
  qed
qed

theorem Fire_stacktrace_block_witness:
  "(\<exists>packet. build_packet sample_env sample_hook (error_entry plain_error) = Inr packet
      \<and> \<not> Enable (StacktraceConfiguration sample_hook)
      \<and> getError (newDataField sample_env (entry_Data (error_entry plain_error)))
          = Some plain_error
      \<and> Interfaces packet = []
      \<and> Culprit packet = ''boom'')
   \<and> (\<exists>packet. build_packet sample_env (tracing_hook True) (error_entry plain_error)
          = Inr packet
      \<and> Enable (StacktraceConfiguration (tracing_hook True))
      \<and> entry_Level (error_entry plain_error)
          \<le> stacktrace_Level (StacktraceConfiguration (tracing_hook True))
      \<and> Interfaces packet
          = [Stacktrace_interface
               (Some \<lparr>Frames = [\<lparr>AbsolutePath = ''/app/main.go'', Lineno = 42,
                                  Module = ''main'', Function = ''run'', InApp = True\<rparr>]\<rparr>)]
      \<and> Culprit packet = ''MyError: main.run'')
   \<and> (\<exists>packet. build_packet sample_env (tracing_hook False) plain_entry = Inr packet
      \<and> getError (newDataField sample_env (entry_Data plain_entry)) = None
      \<and> Interfaces packet
          = [Stacktrace_interface
               (Some \<lparr>Frames = [\<lparr>AbsolutePath = ''/app/main.go'', Lineno = 42,
                                  Module = ''main'', Function = ''run'', InApp = True\<rparr>]\<rparr>)])"
proof -
  let ?st = "\<lparr>Frames = [\<lparr>AbsolutePath = ''/app/main.go'', Lineno = 42,
                                Module = ''main'', Function = ''run'', InApp = True\<rparr>]\<rparr>"
  obtain packet where
    packet: "build_packet sample_env sample_hook (error_entry plain_error) = Inr packet"
    using build_packet_not_wanted[OF not_wanted_sample] by blast
  have off: "\<not> Enable (StacktraceConfiguration sample_hook)"
    by (simp add: sample_hook_def)
  from Fire_stacktrace_block[OF packet refl refl refl refl] off
  have "Interfaces packet = [] \<and> Culprit packet = ''boom''"
    by (simp add: sample_error_view sample_base) (simp add: plain_error_def)
  with packet off sample_error_view have first:
    "\<exists>packet. build_packet sample_env sample_hook (error_entry plain_error) = Inr packet
      \<and> \<not> Enable (StacktraceConfiguration sample_hook)
      \<and> getError (newDataField sample_env (entry_Data (error_entry plain_error)))
          = Some plain_error
      \<and> Interfaces packet = []
      \<and> Culprit packet = ''boom''"
    by blast
  have on: "\<And>b. Enable (StacktraceConfiguration (tracing_hook b))"
    "\<And>b. entry_Level (error_entry plain_error)
       \<le> stacktrace_Level (StacktraceConfiguration (tracing_hook b))"
    "\<And>b. entry_Level plain_entry
       \<le> stacktrace_Level (StacktraceConfiguration (tracing_hook b))"
    "\<And>b. SwitchExceptionTypeAndMessage (StacktraceConfiguration (tracing_hook b)) = b"
    "\<And>b. SendExceptionType (StacktraceConfiguration (tracing_hook b))"
    by (simp_all add: tracing_hook_def sample_hook_def error_entry_def plain_entry_def)
  have wanted: "stacktrace_wanted (tracing_hook True) (error_entry plain_error)"
    "stacktrace_wanted (tracing_hook False) plain_entry"
    using on by (simp_all add: stacktrace_wanted_def)
  have fresh: "\<And>b. NewStacktrace sample_env (Skip (StacktraceConfiguration (tracing_hook b)))
       (Context (StacktraceConfiguration (tracing_hook b)))
       (InAppPrefixes (StacktraceConfiguration (tracing_hook b))) = Some ?st"
    by (simp add: tracing_hook_def sample_hook_def sample_env_def)
  have base: "\<And>b entry. Interfaces (set_special_fields (tracing_hook b)
      (newDataField sample_env (entry_Data entry)) (new_packet sample_env entry)) = []"
    by (simp add: set_special_fields_def sample_env_def sample_dataField_def new_packet_def
      sample_packet_def sample_hook_def tracing_hook_def Let_def)
  have found: "findStacktrace sample_env (tracing_hook True) (Some plain_error) = Inr None"
    by (simp add: findStacktrace_def visit_def plain_error_def)
  have culprit: "Stacktrace_Culprit sample_env ?st = ''main.run''"
    by (simp add: sample_env_def sample_Culprit_def)
  have ty: "exc_Type (NewException sample_env
       (case errors_Cause sample_env plain_error of None \<Rightarrow> plain_error | Some c \<Rightarrow> c)
       (Some ?st)) = ''MyError''"
    by (simp add: sample_env_def plain_error_def)
  obtain traced where
    traced: "build_packet sample_env (tracing_hook True) (error_entry plain_error) = Inr traced"
    using set_stacktrace_data_switch[OF wanted(1) sample_error_view
        sample_current_stacktrace on(4)[of True, simplified]]
    by (simp add: build_packet_def Let_def)
  from Fire_stacktrace_block[OF traced refl refl refl refl]
  have "Interfaces traced = [Stacktrace_interface (Some ?st)]
      \<and> Culprit traced = ''MyError: main.run''"
    by (simp add: on sample_error_view base fresh found culprit ty)
  with traced on have second:
    "\<exists>packet. build_packet sample_env (tracing_hook True) (error_entry plain_error)
          = Inr packet
      \<and> Enable (StacktraceConfiguration (tracing_hook True))
      \<and> entry_Level (error_entry plain_error)
          \<le> stacktrace_Level (StacktraceConfiguration (tracing_hook True))
      \<and> Interfaces packet = [Stacktrace_interface (Some ?st)]
      \<and> Culprit packet = ''MyError: main.run''"
    by blast
  obtain plain where
    plain: "build_packet sample_env (tracing_hook False) plain_entry = Inr plain"
    using set_stacktrace_data_no_error[OF wanted(2) sample_plain_view]
    by (simp add: build_packet_def Let_def)
  from Fire_stacktrace_block[OF plain refl refl refl refl]
  have "Interfaces plain = [Stacktrace_interface (Some ?st)]"
    by (simp add: on sample_plain_view base fresh)
  with plain sample_plain_view have third:
    "\<exists>packet. build_packet sample_env (tracing_hook False) plain_entry = Inr packet
      \<and> getError (newDataField sample_env (entry_Data plain_entry)) = None
      \<and> Interfaces packet = [Stacktrace_interface (Some ?st)]"
    by blast
  from first second third show ?thesis by blast
qed

text \<open>
  With an error in the entry and a current stack trace that is not nil, the part appends
  the stack trace and sets the culprit to the type of the exception, a colon and the
  culprit of the trace when \<^verbatim>\<open>SwitchExceptionTypeAndMessage\<close> is set; otherwise it appends
  the exception and sets the culprit to the text of the error. The type is empty when
  \<^verbatim>\<open>SendExceptionType\<close> is not set.
\<close>

lemma stacktrace_block_with_error:
  assumes "Enable (StacktraceConfiguration hook)"
    and "entry_Level entry \<le> stacktrace_Level (StacktraceConfiguration hook)"
    and "df = newDataField e (entry_Data entry)"
    and "base = set_special_fields hook df (new_packet e entry)"
    and "getError df = Some err"
    and "current_stacktrace e hook err = Inr cur"
    and "cause = (case errors_Cause e err of None \<Rightarrow> err | Some c \<Rightarrow> c)"
  shows "(SwitchExceptionTypeAndMessage (StacktraceConfiguration hook) \<longrightarrow>
            (\<forall>st. cur = Some st \<longrightarrow>
               (\<exists>packet. build_packet e hook entry = Inr packet
                  \<and> Interfaces packet = Interfaces base @ [Stacktrace_interface (Some st)]
                  \<and> Culprit packet
                      = (if SendExceptionType (StacktraceConfiguration hook)
                         then exc_Type (NewException e cause cur) else [])
                        @ '': '' @ Stacktrace_Culprit e st)))
       \<and> (\<not> SwitchExceptionTypeAndMessage (StacktraceConfiguration hook) \<longrightarrow>
            (\<exists>packet. build_packet e hook entry = Inr packet
               \<and> Interfaces packet
                   = Interfaces base @ [Exception_interface (exception e hook err cur)]
               \<and> Culprit packet = Error_text err))"
proof -
  have wanted: "stacktrace_wanted hook entry"
    using assms(1,2) by (simp add: stacktrace_wanted_def)
  have ty: "exc_Type (exception e hook err cur)
      = (if SendExceptionType (StacktraceConfiguration hook)
         then exc_Type (NewException e cause cur) else [])"
    using assms(7) by (simp add: exception_def Let_def)
  show ?thesis
  proof (intro conjI impI allI)
    fix st
    assume switch: "SwitchExceptionTypeAndMessage (StacktraceConfiguration hook)"
      and st: "cur = Some st"
    from set_stacktrace_data_switch[OF wanted assms(5) assms(6)[unfolded st] switch, where packet = base]
    have "build_packet e hook entry = Inr (set_other_fields hook df (base
       \<lparr>Culprit := exc_Type (exception e hook err (Some st)) @ '': '' @ Stacktrace_Culprit e st,
        Interfaces := Interfaces base @ [Stacktrace_interface (Some st)]\<rparr>))"
      using assms(3,4) by (simp add: build_packet_def Let_def)
    then show "\<exists>packet. build_packet e hook entry = Inr packet
        \<and> Interfaces packet = Interfaces base @ [Stacktrace_interface (Some st)]
        \<and> Culprit packet
            = (if SendExceptionType (StacktraceConfiguration hook)
               then exc_Type (NewException e cause cur) else [])
              @ '': '' @ Stacktrace_Culprit e st"
      using ty st by (simp add: set_other_fields_frame)
  next
    assume noswitch: "\<not> SwitchExceptionTypeAndMessage (StacktraceConfiguration hook)"
    from set_stacktrace_data_exception[OF wanted assms(5) assms(6) noswitch, where packet = base]
    have "build_packet e hook entry = Inr (set_other_fields hook df (base
       \<lparr>Culprit := Error_text err,
        Interfaces := Interfaces base @ [Exception_interface (exception e hook err cur)]\<rparr>))"
      using assms(3,4) by (simp add: build_packet_def Let_def)
    then show "\<exists>packet. build_packet e hook entry = Inr packet
        \<and> Interfaces packet = Interfaces base @ [Exception_interface (exception e hook err cur)]
        \<and> Culprit packet = Error_text err"
      by (simp add: set_other_fields_frame)
  qed
qed

lemma stacktrace_block_with_error_sample:
  "Enable (StacktraceConfiguration (tracing_hook True))
   \<and> entry_Level (error_entry plain_error)
       \<le> stacktrace_Level (StacktraceConfiguration (tracing_hook True))
   \<and> getError (newDataField sample_env (entry_Data (error_entry plain_error)))
       = Some plain_error
   \<and> Error_text plain_error = ''boom''
   \<and> (\<exists>packet. build_packet sample_env (tracing_hook True) (error_entry plain_error)
         = Inr packet
        \<and> Interfaces packet
            = [Stacktrace_interface
                 (Some \<lparr>Frames = [\<lparr>AbsolutePath = ''/app/main.go'', Lineno = 42,
                                    Module = ''main'', Function = ''run'', InApp = True\<rparr>]\<rparr>)]
        \<and> Culprit packet = ''MyError: main.run'')
   \<and> (\<exists>packet. build_packet sample_env (tracing_hook False) (error_entry plain_error)
         = Inr packet
        \<and> Culprit packet = ''boom'')"
proof -
  let ?st = "\<lparr>Frames = [\<lparr>AbsolutePath = ''/app/main.go'', Lineno = 42,
                                Module = ''main'', Function = ''run'', InApp = True\<rparr>]\<rparr>"
  have en: "\<And>b. Enable (StacktraceConfiguration (tracing_hook b))"
    by (simp add: tracing_hook_def)
  have le: "\<And>b. entry_Level (error_entry plain_error)
       \<le> stacktrace_Level (StacktraceConfiguration (tracing_hook b))"
    by (simp add: tracing_hook_def sample_hook_def error_entry_def)
  have sw: "\<And>b. SwitchExceptionTypeAndMessage (StacktraceConfiguration (tracing_hook b)) = b"
    "\<And>b. SendExceptionType (StacktraceConfiguration (tracing_hook b))"
    by (simp_all add: tracing_hook_def sample_hook_def)
  have base: "\<And>b. Interfaces (set_special_fields (tracing_hook b)
      (newDataField sample_env (entry_Data (error_entry plain_error)))
      (new_packet sample_env (error_entry plain_error))) = []"
    by (simp add: set_special_fields_def sample_env_def sample_dataField_def new_packet_def
      sample_packet_def sample_hook_def tracing_hook_def Let_def)
  have culprit: "Stacktrace_Culprit sample_env ?st = ''main.run''"
    by (simp add: sample_env_def sample_Culprit_def)
  have ty: "exc_Type (NewException sample_env
       (case errors_Cause sample_env plain_error of None \<Rightarrow> plain_error | Some c \<Rightarrow> c)
       (Some ?st)) = ''MyError''"
    by (simp add: sample_env_def plain_error_def)
  have msg: "Error_text plain_error = ''boom''"
    by (simp add: plain_error_def)
  from stacktrace_block_with_error[OF en le refl refl sample_error_view
      sample_current_stacktrace refl, of True]
  have on: "\<exists>packet. build_packet sample_env (tracing_hook True) (error_entry plain_error)
         = Inr packet
        \<and> Interfaces packet = [Stacktrace_interface (Some ?st)]
        \<and> Culprit packet = ''MyError: main.run''"
    by (simp add: sw base culprit ty)
  from stacktrace_block_with_error[OF en le refl refl sample_error_view
      sample_current_stacktrace refl, of False]
  have off: "\<exists>packet. build_packet sample_env (tracing_hook False) (error_entry plain_error)
         = Inr packet \<and> Culprit packet = ''boom''"
    by (auto simp add: sw msg)
  from en le sample_error_view msg on off show ?thesis by blast
qed

text \<open>
  Claim C6 says that, for every log entry with an error, the stack-trace part with
  \<^verbatim>\<open>SwitchExceptionTypeAndMessage\<close> set appends the stack trace and sets the culprit from
  the type of the exception and the culprit of the trace. When the error carries no
  trace and \<^verbatim>\<open>raven.NewStacktrace\<close> returns nil (the call stack is no deeper than
  \<^verbatim>\<open>Skip\<close>), the code appends the nil trace and calls \<^verbatim>\<open>Culprit\<close> on it: \<^verbatim>\<open>Fire\<close>
  panics. The branch without an error tests the new trace for nil; this one does not.
\<close>

theorem Fire_switch_without_stacktrace:
  "getError (newDataField sample_env (entry_Data (error_entry plain_error))) = Some plain_error
   \<and> stacktrace_wanted shallow_stack_hook (error_entry plain_error)
   \<and> SwitchExceptionTypeAndMessage (StacktraceConfiguration shallow_stack_hook)
   \<and> findStacktrace sample_env shallow_stack_hook (Some plain_error) = Inr None
   \<and> new_stacktrace sample_env shallow_stack_hook = None
   \<and> Fire sample_env shallow_stack_hook (error_entry plain_error) from_timeoutCh
       = Inl NilDereference"
proof -
  have wanted: "stacktrace_wanted shallow_stack_hook (error_entry plain_error)"
    by (simp add: stacktrace_wanted_def shallow_stack_hook_def sample_hook_def error_entry_def)
  have switch: "SwitchExceptionTypeAndMessage (StacktraceConfiguration shallow_stack_hook)"
    by (simp add: shallow_stack_hook_def)
  have found: "findStacktrace sample_env shallow_stack_hook (Some plain_error) = Inr None"
    by (simp add: findStacktrace_def visit_def plain_error_def)
  have fresh: "new_stacktrace sample_env shallow_stack_hook = None"
    by (simp add: new_stacktrace_def shallow_stack_hook_def sample_hook_def sample_env_def)
  have "set_stacktrace_data sample_env shallow_stack_hook (error_entry plain_error)
      (newDataField sample_env (entry_Data (error_entry plain_error))) packet
      = Inl NilDereference" for packet
    using wanted switch found fresh
    by (simp add: set_stacktrace_data_def current_stacktrace_def sample_error_view Let_def)
  then have "Fire sample_env shallow_stack_hook (error_entry plain_error) from_timeoutCh
      = Inl NilDereference"
    by (simp add: Fire_def build_packet_def Let_def)
  with wanted switch found fresh sample_error_view show ?thesis by simp
qed

end
